theory Spec2Isabelle
  imports Complex_Main "HOL-Library.Word"
begin

section \<open>The history manager of the photo editor (src/modules/history.js)\<close>

text \<open>
  The module keeps its state in module-level variables. The embedding collects them in one
  record that every operation takes and returns. JavaScript arrays are lists with index 0
  at the head: \<open>push\<close> appends at the end, \<open>pop\<close> removes the last element and
  \<open>shift\<close> removes the head.
\<close>

subsection \<open>JavaScript values\<close>

text \<open>
  A value handed to \<open>Number.isFinite\<close>: either a finite number (every finite double is a
  rational, and \<open>Math.floor\<close> and the comparisons are exact on it) or anything else
  (NaN, an infinity, a value that is not a number), for which \<open>Number.isFinite\<close> is false.
\<close>

datatype jsnum = Num rat | NotFinite

text \<open>An exception object, as far as the handlers look at it: its name and its message.\<close>

record js_error =
  err_name :: string
  err_message :: string

definition lower_char :: "char \<Rightarrow> char" where
  "lower_char c =
     (let n = (of_char c :: nat) in if 65 \<le> n \<and> n \<le> 90 then char_of (n + 32) else c)"

fun starts_with :: "string \<Rightarrow> string \<Rightarrow> bool" where
  "starts_with [] cs = True"
| "starts_with (p # ps) [] = False"
| "starts_with (p # ps) (c # cs) = (p = c \<and> starts_with ps cs)"

fun contains :: "string \<Rightarrow> string \<Rightarrow> bool" where
  "contains p [] = (p = [])"
| "contains p (c # cs) = (starts_with p (c # cs) \<or> contains p cs)"

text \<open>\<open>String(e && (e.message || e.name || e))\<close> for an exception object \<open>e\<close>.\<close>

definition error_text :: "js_error \<Rightarrow> string" where
  "error_text e =
     (if err_message e \<noteq> [] then err_message e
      else if err_name e \<noteq> [] then err_name e
      else [])"

text \<open>
  The test of the three handlers:
  \<open>(e && e.name === "SecurityError") || /taint|SecurityError/i.test(msg)\<close>.
\<close>

definition is_taint_error :: "js_error \<Rightarrow> bool" where
  "is_taint_error e =
     (let msg = map lower_char (error_text e)
      in err_name e = ''SecurityError'' \<or> contains ''taint'' msg \<or> contains ''securityerror'' msg)"

subsection \<open>Snapshots, metadata, notifications\<close>

type_synonym byte = "8 word"

text \<open>
  An \<open>ImageData\<close> object. \<open>ident\<close> is the identity of the object: the metadata table is
  a \<open>WeakMap\<close> keyed by it.
\<close>

record imagedata =
  ident :: nat
  width :: nat
  height :: nat
  data :: "byte list"

record meta =
  ts :: "nat option"
  label :: "string option"
  thumbDataUrl :: "string option"

record limits =
  lim_maxEntries :: nat
  lim_maxBytes :: "nat option"
  lim_protectReturned :: bool

record entry =
  e_index :: nat
  e_width :: nat
  e_height :: nat
  e_ts :: nat
  e_label :: string
  e_thumbDataUrl :: "string option"

text \<open>The \<open>extra\<close> argument of \<open>_updateUI\<close>, merged into the payload.\<close>

datatype extra =
    NoExtra
  | EmptyExtra
  | TaintedExtra bool
  | LimitsExtra limits
  | ThumbHeightExtra jsnum

record payload =
  p_undoCount :: nat
  p_redoCount :: nat
  p_estimatedBytes :: nat
  p_limits :: limits
  p_thumbnails :: "entry list"
  p_thumbEnabled :: bool
  p_thumbHeight :: jsnum
  p_extra :: extra

subsection \<open>The module state\<close>

text \<open>
  \<open>canvasRef\<close> and \<open>ctxRef\<close> say whether the reference is non-null;
  \<open>updateUICallback\<close> says whether the registered sink is a function. \<open>uiLog\<close> is the
  sequence of payloads the sink has received, \<open>thumbJobs\<close> the thumbnail jobs scheduled
  and not yet completed, \<open>nextId\<close> the identity of the next object created.
  \<open>maxEntries\<close> is a natural number: every assignment to it is \<open>Math.floor\<close> of a
  positive finite number or the default.
\<close>

record state =
  canvasRef :: bool
  ctxRef :: bool
  undoStack :: "imagedata list"
  redoStack :: "imagedata list"
  updateUICallback :: bool
  isTainted :: bool
  maxEntries :: nat
  maxBytes :: "nat option"
  protectReturned :: bool
  thumbEnabled :: bool
  thumbHeight :: jsnum
  metaMap :: "nat \<Rightarrow> meta option"
  nextId :: nat
  uiLog :: "payload list"
  thumbJobs :: "imagedata list"

text \<open>
  What a call finds outside the module: the size of the canvas, what reading its pixels
  gives (the bytes, or the exception of a canvas that is not origin-clean), and the clock.
\<close>

record surface =
  canvas_width :: nat
  canvas_height :: nat
  pixel_read :: "js_error + byte list"
  clock :: nat

definition DEFAULT_MAX_ENTRIES :: nat where
  "DEFAULT_MAX_ENTRIES = 50"

definition THUMB_DEFAULT_SIZE :: rat where
  "THUMB_DEFAULT_SIZE = 96"

subsection \<open>Queries\<close>

definition getTainted :: "state \<Rightarrow> bool" where
  "getTainted s = isTainted s"

definition canUndo :: "state \<Rightarrow> bool" where
  "canUndo s = (\<not> isTainted s \<and> length (undoStack s) > 0)"

definition canRedo :: "state \<Rightarrow> bool" where
  "canRedo s = (\<not> isTainted s \<and> length (redoStack s) > 0)"

definition getUndoCount :: "state \<Rightarrow> nat" where
  "getUndoCount s = length (undoStack s)"

definition getRedoCount :: "state \<Rightarrow> nat" where
  "getRedoCount s = length (redoStack s)"

text \<open>
  \<open>for (const s of stack) total += s.width * s.height * bytesPerPixel\<close>. The sizes are
  integers far below \<open>2^53\<close>, where the arithmetic of doubles is exact.
\<close>

fun stack_bytes :: "imagedata list \<Rightarrow> nat" where
  "stack_bytes [] = 0"
| "stack_bytes (x # xs) = width x * height x * 4 + stack_bytes xs"

definition estimate :: "imagedata list \<Rightarrow> imagedata list \<Rightarrow> nat" where
  "estimate undo redo = stack_bytes undo + stack_bytes redo"

definition getEstimatedBytes :: "state \<Rightarrow> nat" where
  "getEstimatedBytes s = estimate (undoStack s) (redoStack s)"

definition getLimits :: "state \<Rightarrow> limits" where
  "getLimits s =
     \<lparr>lim_maxEntries = maxEntries s, lim_maxBytes = maxBytes s,
      lim_protectReturned = protectReturned s\<rparr>"

definition getMaxEntries :: "state \<Rightarrow> nat" where
  "getMaxEntries s = maxEntries s"

text \<open>One element of \<open>undoStack.map((imgData, idx) => ...)\<close>.\<close>

definition entry_of :: "(nat \<Rightarrow> meta option) \<Rightarrow> nat \<Rightarrow> imagedata \<Rightarrow> entry" where
  "entry_of mm idx img =
     (let m = (case mm (ident img) of None \<Rightarrow> \<lparr>ts = None, label = None, thumbDataUrl = None\<rparr>
                                    | Some m \<Rightarrow> m)
      in \<lparr>e_index = idx, e_width = width img, e_height = height img,
          e_ts = (case ts m of None \<Rightarrow> 0 | Some t \<Rightarrow> t),
          e_label = (case label m of None \<Rightarrow> [] | Some l \<Rightarrow> l),
          e_thumbDataUrl = (case thumbDataUrl m of None \<Rightarrow> None
                             | Some u \<Rightarrow> if u = [] then None else Some u)\<rparr>)"

fun entries_from :: "(nat \<Rightarrow> meta option) \<Rightarrow> nat \<Rightarrow> imagedata list \<Rightarrow> entry list" where
  "entries_from mm idx [] = []"
| "entries_from mm idx (x # xs) = entry_of mm idx x # entries_from mm (Suc idx) xs"

definition getHistoryThumbnails :: "state \<Rightarrow> entry list" where
  "getHistoryThumbnails s = entries_from (metaMap s) 0 (undoStack s)"

subsection \<open>Notification\<close>

definition make_payload :: "state \<Rightarrow> extra \<Rightarrow> payload" where
  "make_payload s ex =
     \<lparr>p_undoCount = getUndoCount s, p_redoCount = getRedoCount s,
      p_estimatedBytes = getEstimatedBytes s, p_limits = getLimits s,
      p_thumbnails = entries_from (metaMap s) 0 (undoStack s),
      p_thumbEnabled = thumbEnabled s, p_thumbHeight = thumbHeight s,
      p_extra = ex\<rparr>"

definition updateUI :: "state \<Rightarrow> extra \<Rightarrow> state" where
  "updateUI s ex =
     (if updateUICallback s then s\<lparr>uiLog := uiLog s @ [make_payload s ex]\<rparr> else s)"

subsection \<open>Eviction\<close>

text \<open>
  The first loop of \<open>_enforceLimits\<close>:
  \<open>while (undoStack.length > maxEntries) { evicted = undoStack.shift(); metaMap.delete(evicted) }\<close>.
  The loop works on the undo stack and the metadata table only.
\<close>

fun evict_count :: "nat \<Rightarrow> imagedata list \<Rightarrow> (nat \<Rightarrow> meta option)
    \<Rightarrow> imagedata list \<times> (nat \<Rightarrow> meta option)" where
  "evict_count m [] mm = ([], mm)"
| "evict_count m (x # xs) mm =
     (if length (x # xs) > m then evict_count m xs (mm(ident x := None)) else (x # xs, mm))"

text \<open>
  The second loop:
  \<open>while (totalBytes > maxBytes && undoStack.length > 0) { shift; delete; totalBytes = estimate() }\<close>.
\<close>

fun evict_bytes :: "nat \<Rightarrow> imagedata list \<Rightarrow> imagedata list \<Rightarrow> (nat \<Rightarrow> meta option)
    \<Rightarrow> imagedata list \<times> (nat \<Rightarrow> meta option)" where
  "evict_bytes mb redo [] mm = ([], mm)"
| "evict_bytes mb redo (x # xs) mm =
     (if estimate (x # xs) redo > mb then evict_bytes mb redo xs (mm(ident x := None))
      else (x # xs, mm))"

text \<open>\<open>!maxBytes\<close> holds for \<open>undefined\<close> and for 0.\<close>

definition enforceLimits :: "state \<Rightarrow> state" where
  "enforceLimits s =
     (let (u1, m1) = evict_count (maxEntries s) (undoStack s) (metaMap s);
          s1 = s\<lparr>undoStack := u1, metaMap := m1\<rparr>
      in case maxBytes s1 of
           None \<Rightarrow> s1
         | Some mb \<Rightarrow>
             if mb = 0 then s1
             else (let (u2, m2) = evict_bytes mb (redoStack s1) (undoStack s1) (metaMap s1)
                   in s1\<lparr>undoStack := u2, metaMap := m2\<rparr>))"

subsection \<open>Reading the surface\<close>

text \<open>
  \<open>ctxRef.getImageData(0, 0, canvasRef.width, canvasRef.height)\<close>: a TypeError when a
  reference is null, an IndexSizeError for an empty rectangle, the exception of the pixel
  read for a canvas that is not origin-clean, and otherwise a new \<open>ImageData\<close> object of
  the size of the canvas.
\<close>

definition getImageData :: "state \<Rightarrow> surface \<Rightarrow> js_error + (imagedata \<times> state)" where
  "getImageData s env =
     (if \<not> (canvasRef s \<and> ctxRef s) then
        Inl \<lparr>err_name = ''TypeError'', err_message = ''Cannot read properties of null''\<rparr>
      else if canvas_width env = 0 \<or> canvas_height env = 0 then
        Inl \<lparr>err_name = ''IndexSizeError'', err_message = ''The source width or height is 0.''\<rparr>
      else case pixel_read env of
             Inl e \<Rightarrow> Inl e
           | Inr bytes \<Rightarrow>
               Inr (\<lparr>ident = nextId s, width = canvas_width env, height = canvas_height env,
                      data = bytes\<rparr>,
                    s\<lparr>nextId := Suc (nextId s)\<rparr>))"

definition cloneImageData :: "state \<Rightarrow> imagedata \<Rightarrow> imagedata \<times> state" where
  "cloneImageData s img =
     (\<lparr>ident = nextId s, width = width img, height = height img, data = data img\<rparr>,
      s\<lparr>nextId := Suc (nextId s)\<rparr>)"

subsection \<open>Thumbnail jobs\<close>

text \<open>
  \<open>_scheduleThumbGeneration\<close> hands the job to the idle callback queue and returns; the
  job keeps a reference to the snapshot object.
\<close>

definition scheduleThumbGeneration :: "state \<Rightarrow> imagedata \<Rightarrow> state" where
  "scheduleThumbGeneration s img = s\<lparr>thumbJobs := thumbJobs s @ [img]\<rparr>"

text \<open>
  The completion of a job with an encoded preview (the body of \<open>fr.onload\<close>, and of the
  synchronous \<open>toDataURL\<close> branch):
  \<open>m = metaMap.get(imgData) || {}; m.thumbDataUrl = url; metaMap.set(imgData, m); _updateUI({})\<close>.
\<close>

definition thumbFinalize :: "state \<Rightarrow> imagedata \<Rightarrow> string \<Rightarrow> state" where
  "thumbFinalize s img url =
     (let m = (case metaMap s (ident img) of
                 None \<Rightarrow> \<lparr>ts = None, label = None, thumbDataUrl = None\<rparr>
               | Some m \<Rightarrow> m);
          s1 = s\<lparr>metaMap := (metaMap s)(ident img \<mapsto> m\<lparr>thumbDataUrl := Some url\<rparr>)\<rparr>
      in updateUI s1 EmptyExtra)"

text \<open>
  Job number \<open>i\<close> of the queue completes: with \<open>Some url\<close> when the encoder delivered,
  with \<open>None\<close> when it failed (the promise resolves and nothing else happens).
\<close>

definition thumbJobDone :: "state \<Rightarrow> nat \<Rightarrow> string option \<Rightarrow> state" where
  "thumbJobDone s i outcome =
     (if i < length (thumbJobs s) then
        (let img = thumbJobs s ! i;
             s1 = s\<lparr>thumbJobs := take i (thumbJobs s) @ drop (Suc i) (thumbJobs s)\<rparr>
         in case outcome of None \<Rightarrow> s1 | Some url \<Rightarrow> thumbFinalize s1 img url)
      else s)"

subsection \<open>Configuration\<close>

text \<open>
  The options object of \<open>initHistory\<close>. A field that is \<open>None\<close> is absent
  (\<open>undefined\<close>); the boolean fields hold the truthiness of the value after its default
  (\<open>onUpdateUI\<close>: whether the value is a function).
\<close>

record options =
  opt_onUpdateUI :: bool
  opt_maxEntries :: "jsnum option"
  opt_maxBytes :: "jsnum option"
  opt_protectReturned :: bool
  opt_thumbnails :: bool
  opt_thumbHeight :: "jsnum option"

datatype init_arg = Callback | Options options | OtherArg

text \<open>\<open>Math.floor\<close> of a finite number that the caller has found positive.\<close>

definition floor_nat :: "rat \<Rightarrow> nat" where
  "floor_nat q = nat \<lfloor>q\<rfloor>"

definition init_maxEntries :: "jsnum option \<Rightarrow> nat" where
  "init_maxEntries me =
     (case me of
        None \<Rightarrow> DEFAULT_MAX_ENTRIES
      | Some NotFinite \<Rightarrow> DEFAULT_MAX_ENTRIES
      | Some (Num q) \<Rightarrow> if q > 0 then floor_nat q else DEFAULT_MAX_ENTRIES)"

definition init_maxBytes :: "jsnum option \<Rightarrow> nat option" where
  "init_maxBytes mb =
     (case mb of
        None \<Rightarrow> None
      | Some NotFinite \<Rightarrow> None
      | Some (Num q) \<Rightarrow> if q > 0 then Some (floor_nat q) else None)"

definition init_thumbHeight :: "jsnum \<Rightarrow> jsnum option \<Rightarrow> jsnum" where
  "init_thumbHeight old th =
     (case th of
        None \<Rightarrow> old
      | Some NotFinite \<Rightarrow> old
      | Some (Num q) \<Rightarrow> if q > 16 \<and> q \<le> 256 then Num (of_int \<lfloor>q\<rfloor>) else old)"

text \<open>
  \<open>initHistory(canvas, onChangeOrOptions)\<close>; \<open>ctx\<close> says whether
  \<open>canvas.getContext("2d")\<close> returned a context.
\<close>

definition initHistory :: "state \<Rightarrow> bool \<Rightarrow> init_arg \<Rightarrow> state" where
  "initHistory s ctx arg =
     (let s0 = s\<lparr>canvasRef := True, ctxRef := ctx\<rparr>;
          s1 = (case arg of
                  Callback \<Rightarrow>
                    s0\<lparr>updateUICallback := True, maxEntries := DEFAULT_MAX_ENTRIES,
                       maxBytes := None, protectReturned := False\<rparr>
                | Options opts \<Rightarrow>
                    s0\<lparr>updateUICallback := opt_onUpdateUI opts,
                       maxEntries := init_maxEntries (opt_maxEntries opts),
                       maxBytes := init_maxBytes (opt_maxBytes opts),
                       protectReturned := opt_protectReturned opts,
                       thumbEnabled := opt_thumbnails opts,
                       thumbHeight := init_thumbHeight (thumbHeight s0) (opt_thumbHeight opts)\<rparr>
                | OtherArg \<Rightarrow>
                    s0\<lparr>updateUICallback := True, maxEntries := DEFAULT_MAX_ENTRIES,
                       maxBytes := None, protectReturned := False\<rparr>);
          s2 = s1\<lparr>undoStack := [], redoStack := [], isTainted := False\<rparr>
      in updateUI s2 NoExtra)"

text \<open>The setters. The write to \<open>localStorage\<close> is outside the state modelled here.\<close>

definition setMaxEntries :: "state \<Rightarrow> jsnum \<Rightarrow> state" where
  "setMaxEntries s n =
     (case n of
        NotFinite \<Rightarrow> s
      | Num q \<Rightarrow>
          if q \<le> 0 then s
          else (let s1 = s\<lparr>maxEntries := floor_nat q\<rparr>;
                    s2 = enforceLimits s1
                in updateUI s2 (LimitsExtra (getLimits s2))))"

definition setThumbHeight :: "state \<Rightarrow> jsnum \<Rightarrow> state" where
  "setThumbHeight s h =
     (case h of
        NotFinite \<Rightarrow> s
      | Num q \<Rightarrow>
          if q \<ge> 48 \<and> q \<le> 256 then
            (let s1 = s\<lparr>thumbHeight := Num (of_int \<lfloor>q\<rfloor>)\<rparr>
             in updateUI s1 (ThumbHeightExtra (thumbHeight s1)))
          else s)"

subsection \<open>push, undo, redo\<close>

text \<open>
  \<open>pushHistory(label)\<close>. The sink is taken not to throw, so the handler is entered by the
  surface read only.
\<close>

definition pushHistory :: "state \<Rightarrow> string option \<Rightarrow> surface \<Rightarrow> state \<times> bool" where
  "pushHistory s lbl env =
     (if \<not> canvasRef s \<or> \<not> ctxRef s \<or> canvas_width env = 0 then (s, False)
      else case getImageData s env of
             Inl e \<Rightarrow>
               (if is_taint_error e then (updateUI (s\<lparr>isTainted := True\<rparr>) (TaintedExtra True), False)
                else (s, False))
           | Inr (snapshot, s0) \<Rightarrow>
               (let s1 = s0\<lparr>undoStack := undoStack s0 @ [snapshot],
                            metaMap := (metaMap s0)(ident snapshot \<mapsto>
                              \<lparr>ts = Some (clock env),
                               label = Some (case lbl of None \<Rightarrow> [] | Some l \<Rightarrow> l),
                               thumbDataUrl = None\<rparr>)\<rparr>;
                    s2 = s1\<lparr>redoStack := []\<rparr>;
                    s3 = enforceLimits s2;
                    s4 = (if isTainted s3 then updateUI (s3\<lparr>isTainted := False\<rparr>) (TaintedExtra False)
                          else updateUI s3 NoExtra);
                    s5 = (if thumbEnabled s4 then scheduleThumbGeneration s4 snapshot else s4)
                in (s5, True)))"

text \<open>The tail of \<open>undo\<close>, after the \<open>try\<close> statement.\<close>

definition undo_pop :: "state \<Rightarrow> state \<times> imagedata option" where
  "undo_pop s =
     (if undoStack s = [] then (updateUI s NoExtra, None)
      else (let prev = last (undoStack s);
                s1 = s\<lparr>undoStack := butlast (undoStack s)\<rparr>;
                (result, s2) = (if protectReturned s1 then cloneImageData s1 prev else (prev, s1))
            in (updateUI s2 NoExtra, Some result)))"

definition undo :: "state \<Rightarrow> surface \<Rightarrow> state \<times> imagedata option" where
  "undo s env =
     (if isTainted s \<or> \<not> canUndo s then (s, None)
      else case getImageData s env of
             Inr (current, s0) \<Rightarrow>
               undo_pop (s0\<lparr>redoStack := redoStack s0 @ [current],
                            metaMap := (metaMap s0)(ident current \<mapsto>
                              \<lparr>ts = Some (clock env), label = Some ''redo-base'',
                               thumbDataUrl = None\<rparr>)\<rparr>)
           | Inl e \<Rightarrow>
               (if is_taint_error e then (updateUI (s\<lparr>isTainted := True\<rparr>) (TaintedExtra True), None)
                else undo_pop s))"

text \<open>The tail of \<open>redo\<close>, after the \<open>try\<close> statement.\<close>

definition redo_return :: "state \<Rightarrow> imagedata \<Rightarrow> state \<times> imagedata option" where
  "redo_return s next =
     (let (result, s1) = (if protectReturned s then cloneImageData s next else (next, s))
      in (updateUI s1 NoExtra, Some result))"

definition redo :: "state \<Rightarrow> surface \<Rightarrow> state \<times> imagedata option" where
  "redo s env =
     (if isTainted s \<or> \<not> canRedo s then (s, None)
      else (let next = last (redoStack s);
                sp = s\<lparr>redoStack := butlast (redoStack s)\<rparr>
            in case getImageData sp env of
                 Inr (current, s0) \<Rightarrow>
                   redo_return
                     (enforceLimits (s0\<lparr>undoStack := undoStack s0 @ [current],
                        metaMap := (metaMap s0)(ident current \<mapsto>
                          \<lparr>ts = Some (clock env), label = Some ''undo-base'',
                           thumbDataUrl = None\<rparr>)\<rparr>))
                     next
               | Inl e \<Rightarrow>
                   (if is_taint_error e then
                      (updateUI (sp\<lparr>isTainted := True\<rparr>) (TaintedExtra True), None)
                    else redo_return sp next)))"

text \<open>
  \<open>restoreImageData(imgData)\<close> writes the canvas and calls \<open>pushHistory()\<close>; \<open>env\<close> is
  the surface after the write.
\<close>

definition restoreImageData :: "state \<Rightarrow> surface \<Rightarrow> state" where
  "restoreImageData s env =
     (if \<not> canvasRef s \<or> \<not> ctxRef s then s else fst (pushHistory s None env))"

subsection \<open>Sequences of calls\<close>

datatype call =
    InitHistory bool init_arg
  | Push "string option" surface
  | Undo surface
  | Redo surface
  | SetMaxEntries jsnum
  | SetThumbHeight jsnum
  | RestoreImageData surface
  | ThumbJobDone nat "string option"

fun step :: "state \<Rightarrow> call \<Rightarrow> state" where
  "step s (InitHistory ctx arg) = initHistory s ctx arg"
| "step s (Push lbl env) = fst (pushHistory s lbl env)"
| "step s (Undo env) = fst (undo s env)"
| "step s (Redo env) = fst (redo s env)"
| "step s (SetMaxEntries n) = setMaxEntries s n"
| "step s (SetThumbHeight h) = setThumbHeight s h"
| "step s (RestoreImageData env) = restoreImageData s env"
| "step s (ThumbJobDone i outcome) = thumbJobDone s i outcome"

fun run :: "state \<Rightarrow> call list \<Rightarrow> state" where
  "run s [] = s"
| "run s (c # cs) = run (step s c) cs"

text \<open>
  The module as loaded, before \<open>initHistory\<close>. \<open>saved\<close> is
  \<open>Number(localStorage.getItem("hist.maxEntries"))\<close>; a storage that throws gives the
  default as well. \<open>savedThumb\<close> is \<open>Number(localStorage.getItem("hist.thumbHeight"))\<close>
  when that is a finite number, and 0 when the item is missing or does not parse (both
  are falsy, and \<open>||\<close> takes the default).
\<close>

definition module_state :: "jsnum \<Rightarrow> rat \<Rightarrow> state" where
  "module_state saved savedThumb =
     \<lparr>canvasRef = False, ctxRef = False, undoStack = [], redoStack = [],
      updateUICallback = True, isTainted = False,
      maxEntries = (case saved of NotFinite \<Rightarrow> DEFAULT_MAX_ENTRIES
                    | Num q \<Rightarrow> if q > 0 then floor_nat q else DEFAULT_MAX_ENTRIES),
      maxBytes = None, protectReturned = False, thumbEnabled = True,
      thumbHeight = Num (if savedThumb = 0 then THUMB_DEFAULT_SIZE else savedThumb),
      metaMap = (\<lambda>k. None), nextId = 0, uiLog = [], thumbJobs = []\<rparr>"

subsection \<open>Concrete surfaces and states\<close>

text \<open>
  Inputs on which the theorems below are evaluated: surfaces of one pixel and of two
  pixels, a surface whose read raises the SecurityError of a cross-origin canvas, and
  histories reached from the module as loaded.
\<close>

definition surface_A :: surface where
  "surface_A = \<lparr>canvas_width = 1, canvas_height = 1, pixel_read = Inr [1, 2, 3, 4], clock = 10\<rparr>"

definition surface_B :: surface where
  "surface_B = \<lparr>canvas_width = 1, canvas_height = 1, pixel_read = Inr [5, 6, 7, 8], clock = 20\<rparr>"

definition surface_wide :: surface where
  "surface_wide =
     \<lparr>canvas_width = 2, canvas_height = 1, pixel_read = Inr [9, 9, 9, 9, 7, 7, 7, 7], clock = 30\<rparr>"

definition security_error :: js_error where
  "security_error =
     \<lparr>err_name = ''SecurityError'',
      err_message = ''The canvas has been tainted by cross-origin data.''\<rparr>"

definition surface_tainted :: surface where
  "surface_tainted =
     \<lparr>canvas_width = 1, canvas_height = 1, pixel_read = Inl security_error, clock = 40\<rparr>"

definition plain_options :: options where
  "plain_options =
     \<lparr>opt_onUpdateUI = True, opt_maxEntries = None, opt_maxBytes = None,
      opt_protectReturned = False, opt_thumbnails = True, opt_thumbHeight = None\<rparr>"

definition fresh_history :: state where
  "fresh_history = initHistory (module_state NotFinite 0) True Callback"

definition protected_history :: state where
  "protected_history =
     initHistory (module_state NotFinite 0) True
       (Options (plain_options\<lparr>opt_protectReturned := True\<rparr>))"

definition capped_history :: state where
  "capped_history =
     initHistory (module_state NotFinite 0) True
       (Options (plain_options\<lparr>opt_maxBytes := Some (Num 4)\<rparr>))"

definition single_entry_history :: state where
  "single_entry_history =
     initHistory (module_state NotFinite 0) True
       (Options (plain_options\<lparr>opt_maxEntries := Some (Num 1)\<rparr>))"

text \<open>Two pushes and one undo: one snapshot on each stack.\<close>

definition navigated_history :: state where
  "navigated_history =
     run fresh_history [Push (Some ''A'') surface_A, Push (Some ''B'') surface_B, Undo surface_B]"

text \<open>The same, followed by a push whose surface read raises the SecurityError.\<close>

definition tainted_history :: state where
  "tainted_history = step navigated_history (Push None surface_tainted)"

definition three_pushes :: state where
  "three_pushes =
     run fresh_history
       [Push (Some ''A'') surface_A, Push (Some ''B'') surface_B, Push None surface_wide]"

definition lowering_calls :: "call list" where
  "lowering_calls =
     [Push (Some ''A'') surface_A, Push (Some ''B'') surface_B, Push None surface_wide,
      SetMaxEntries (Num 2)]"

text \<open>Two pushes under a limit of one entry: the first snapshot is evicted.\<close>

definition evicting_pushes :: state where
  "evicting_pushes =
     run single_entry_history [Push (Some ''A'') surface_A, Push (Some ''B'') surface_B]"

text \<open>A byte limit of 4, one push and one undo: the redo stack holds one snapshot.\<close>

definition capped_navigated :: state where
  "capped_navigated = run capped_history [Push None surface_A, Undo surface_A]"

section \<open>Properties\<close>

subsection \<open>Auxiliary facts\<close>

text \<open>
  What the notification, the eviction loops and the single operations do to the fields of
  the state. The notification only appends to \<open>uiLog\<close>; eviction only shortens the undo
  stack from its head and deletes metadata.
\<close>

lemma updateUI_fields [simp]:
  "undoStack (updateUI s ex) = undoStack s"
  "redoStack (updateUI s ex) = redoStack s"
  "isTainted (updateUI s ex) = isTainted s"
  "maxEntries (updateUI s ex) = maxEntries s"
  "maxBytes (updateUI s ex) = maxBytes s"
  "metaMap (updateUI s ex) = metaMap s"
  "protectReturned (updateUI s ex) = protectReturned s"
  "thumbHeight (updateUI s ex) = thumbHeight s"
  "thumbEnabled (updateUI s ex) = thumbEnabled s"
  "canvasRef (updateUI s ex) = canvasRef s"
  "ctxRef (updateUI s ex) = ctxRef s"
  "nextId (updateUI s ex) = nextId s"
  "thumbJobs (updateUI s ex) = thumbJobs s"
  "updateUICallback (updateUI s ex) = updateUICallback s"
  by (simp_all add: updateUI_def)

lemma evict_count_prefix:
  "\<exists>k\<le>length xs. evict_count m xs mm =
     (drop k xs, (\<lambda>i. if i \<in> ident ` set (take k xs) then None else mm i))"
proof (induction xs arbitrary: mm)
  case Nil
  show ?case by simp
next
  case (Cons x xs)
  show ?case
  proof (cases "length (x # xs) > m")
    case False
    then have "evict_count m (x # xs) mm =
      (drop 0 (x # xs), (\<lambda>i. if i \<in> ident ` set (take 0 (x # xs)) then None else mm i))"
      by simp
    then show ?thesis by blast
  next
    case True
    from Cons.IH [of "mm(ident x := None)"] obtain k where k: "k \<le> length xs"
      "evict_count m xs (mm(ident x := None)) =
        (drop k xs, (\<lambda>i. if i \<in> ident ` set (take k xs) then None else (mm(ident x := None)) i))"
      by blast
    have "(\<lambda>i. if i \<in> ident ` set (take k xs) then None else (mm(ident x := None)) i) =
          (\<lambda>i. if i \<in> ident ` set (take (Suc k) (x # xs)) then None else mm i)"
      by (rule ext) simp
    with k True have "evict_count m (x # xs) mm =
      (drop (Suc k) (x # xs), (\<lambda>i. if i \<in> ident ` set (take (Suc k) (x # xs)) then None else mm i))"
      by simp
    moreover have "Suc k \<le> length (x # xs)" using k by simp
    ultimately show ?thesis by blast
  qed
qed

lemma evict_bytes_prefix:
  "\<exists>k\<le>length xs. evict_bytes mb rs xs mm =
     (drop k xs, (\<lambda>i. if i \<in> ident ` set (take k xs) then None else mm i))"
proof (induction xs arbitrary: mm)
  case Nil
  show ?case by simp
next
  case (Cons x xs)
  show ?case
  proof (cases "estimate (x # xs) rs > mb")
    case False
    then have "evict_bytes mb rs (x # xs) mm =
      (drop 0 (x # xs), (\<lambda>i. if i \<in> ident ` set (take 0 (x # xs)) then None else mm i))"
      by simp
    then show ?thesis by blast
  next
    case True
    from Cons.IH [of "mm(ident x := None)"] obtain k where k: "k \<le> length xs"
      "evict_bytes mb rs xs (mm(ident x := None)) =
        (drop k xs, (\<lambda>i. if i \<in> ident ` set (take k xs) then None else (mm(ident x := None)) i))"
      by blast
    have "(\<lambda>i. if i \<in> ident ` set (take k xs) then None else (mm(ident x := None)) i) =
          (\<lambda>i. if i \<in> ident ` set (take (Suc k) (x # xs)) then None else mm i)"
      by (rule ext) simp
    with k True have "evict_bytes mb rs (x # xs) mm =
      (drop (Suc k) (x # xs), (\<lambda>i. if i \<in> ident ` set (take (Suc k) (x # xs)) then None else mm i))"
      by simp
    moreover have "Suc k \<le> length (x # xs)" using k by simp
    ultimately show ?thesis by blast
  qed
qed

lemma evict_count_length: "length (fst (evict_count m xs mm)) \<le> m"
  by (induction xs arbitrary: mm) auto

lemma evict_bytes_length: "length (fst (evict_bytes mb rs xs mm)) \<le> length xs"
  by (induction xs arbitrary: mm) (auto intro: le_SucI)

lemma evict_bytes_bound:
  "fst (evict_bytes mb rs xs mm) = [] \<or> estimate (fst (evict_bytes mb rs xs mm)) rs \<le> mb"
  by (induction xs arbitrary: mm) auto

lemma evict_count_id: "length xs \<le> m \<Longrightarrow> evict_count m xs mm = (xs, mm)"
  by (cases xs) auto

lemma evict_bytes_id: "estimate xs rs \<le> mb \<Longrightarrow> evict_bytes mb rs xs mm = (xs, mm)"
  by (cases xs) auto

lemma enforceLimits_fields [simp]:
  "redoStack (enforceLimits s) = redoStack s"
  "isTainted (enforceLimits s) = isTainted s"
  "maxEntries (enforceLimits s) = maxEntries s"
  "maxBytes (enforceLimits s) = maxBytes s"
  "protectReturned (enforceLimits s) = protectReturned s"
  "thumbHeight (enforceLimits s) = thumbHeight s"
  "thumbEnabled (enforceLimits s) = thumbEnabled s"
  "canvasRef (enforceLimits s) = canvasRef s"
  "ctxRef (enforceLimits s) = ctxRef s"
  "nextId (enforceLimits s) = nextId s"
  "thumbJobs (enforceLimits s) = thumbJobs s"
  "uiLog (enforceLimits s) = uiLog s"
  "updateUICallback (enforceLimits s) = updateUICallback s"
  by (simp_all add: enforceLimits_def Let_def split: prod.splits option.splits)

lemma enforceLimits_length: "length (undoStack (enforceLimits s)) \<le> maxEntries s"
proof -
  let ?c = "evict_count (maxEntries s) (undoStack s) (metaMap s)"
  have a: "length (fst ?c) \<le> maxEntries s"
    by (rule evict_count_length)
  have b: "length (fst (evict_bytes mb rs (fst ?c) mm)) \<le> maxEntries s" for mb rs mm
    using a evict_bytes_length [of mb rs "fst ?c" mm] by (rule_tac le_trans)
  show ?thesis
    using a b by (simp add: enforceLimits_def Let_def case_prod_beta split: option.splits)
qed

lemma enforceLimits_bytes:
  assumes "maxBytes s = Some mb" "mb > 0"
  shows "undoStack (enforceLimits s) = [] \<or>
         estimate (undoStack (enforceLimits s)) (redoStack s) \<le> mb"
  using assms evict_bytes_bound [of mb "redoStack s"
      "fst (evict_count (maxEntries s) (undoStack s) (metaMap s))"
      "snd (evict_count (maxEntries s) (undoStack s) (metaMap s))"]
  by (simp add: enforceLimits_def Let_def case_prod_beta)

lemma enforceLimits_prefix:
  "\<exists>k\<le>length (undoStack s).
     undoStack (enforceLimits s) = drop k (undoStack s) \<and>
     metaMap (enforceLimits s) =
       (\<lambda>i. if i \<in> ident ` set (take k (undoStack s)) then None else metaMap s i)"
proof -
  obtain k1 where k1: "k1 \<le> length (undoStack s)"
    "evict_count (maxEntries s) (undoStack s) (metaMap s) =
       (drop k1 (undoStack s),
        (\<lambda>i. if i \<in> ident ` set (take k1 (undoStack s)) then None else metaMap s i))"
    using evict_count_prefix by blast
  let ?u1 = "drop k1 (undoStack s)"
  let ?m1 = "\<lambda>i. if i \<in> ident ` set (take k1 (undoStack s)) then None else metaMap s i"
  show ?thesis
  proof (cases "\<exists>mb. maxBytes s = Some mb \<and> mb \<noteq> 0")
    case False
    then have "undoStack (enforceLimits s) = ?u1 \<and> metaMap (enforceLimits s) = ?m1"
      using k1 by (auto simp: enforceLimits_def Let_def split: option.splits)
    with k1(1) show ?thesis by blast
  next
    case True
    then obtain mb where mb: "maxBytes s = Some mb" "mb \<noteq> 0" by blast
    obtain k2 where k2: "k2 \<le> length ?u1"
      "evict_bytes mb (redoStack s) ?u1 ?m1 =
         (drop k2 ?u1, (\<lambda>i. if i \<in> ident ` set (take k2 ?u1) then None else ?m1 i))"
      using evict_bytes_prefix by blast
    have t: "take (k1 + k2) (undoStack s) = take k1 (undoStack s) @ take k2 ?u1"
      by (simp add: take_add)
    have m: "(\<lambda>i. if i \<in> ident ` set (take k2 ?u1) then None else ?m1 i) =
             (\<lambda>i. if i \<in> ident ` set (take (k1 + k2) (undoStack s)) then None else metaMap s i)"
      by (rule ext) (auto simp: t)
    have "undoStack (enforceLimits s) = drop (k1 + k2) (undoStack s) \<and>
          metaMap (enforceLimits s) =
            (\<lambda>i. if i \<in> ident ` set (take (k1 + k2) (undoStack s)) then None else metaMap s i)"
      using k1 k2 mb m by (simp add: enforceLimits_def Let_def add.commute)
    moreover have "k1 + k2 \<le> length (undoStack s)" using k1(1) k2(1) by simp
    ultimately show ?thesis by blast
  qed
qed

lemma getImageData_Inr:
  "getImageData s env = Inr (img, s0) \<Longrightarrow>
     s0 = s\<lparr>nextId := Suc (nextId s)\<rparr> \<and>
     img = \<lparr>ident = nextId s, width = canvas_width env, height = canvas_height env,
            data = projr (pixel_read env)\<rparr> \<and>
     pixel_read env = Inr (data img)"
  by (auto simp: getImageData_def split: if_splits sum.splits)

lemma enforceLimits_length_le:
  "maxEntries s \<le> m \<Longrightarrow> length (undoStack (enforceLimits s)) \<le> m"
  using enforceLimits_length [of s] by simp

lemma pushHistory_inv:
  "length (undoStack s) \<le> maxEntries s \<Longrightarrow>
   length (undoStack (fst (pushHistory s lbl env))) \<le> maxEntries (fst (pushHistory s lbl env))"
  by (auto simp: pushHistory_def Let_def scheduleThumbGeneration_def
      split: sum.splits prod.splits dest!: getImageData_Inr intro!: enforceLimits_length_le)

lemma undo_pop_inv:
  "length (undoStack s) \<le> maxEntries s \<Longrightarrow>
   length (undoStack (fst (undo_pop s))) \<le> maxEntries (fst (undo_pop s))"
  by (auto simp: undo_pop_def Let_def cloneImageData_def split: prod.splits)

lemma undo_inv:
  "length (undoStack s) \<le> maxEntries s \<Longrightarrow>
   length (undoStack (fst (undo s env))) \<le> maxEntries (fst (undo s env))"
  by (auto simp: undo_def Let_def split: sum.splits prod.splits
      dest!: getImageData_Inr intro!: undo_pop_inv)

lemma redo_return_fields:
  "undoStack (fst (redo_return s nx)) = undoStack s"
  "maxEntries (fst (redo_return s nx)) = maxEntries s"
  "redoStack (fst (redo_return s nx)) = redoStack s"
  "isTainted (fst (redo_return s nx)) = isTainted s"
  "maxBytes (fst (redo_return s nx)) = maxBytes s"
  by (simp_all add: redo_return_def cloneImageData_def)

lemma redo_inv:
  "length (undoStack s) \<le> maxEntries s \<Longrightarrow>
   length (undoStack (fst (redo s env))) \<le> maxEntries (fst (redo s env))"
  by (auto simp: redo_def Let_def redo_return_fields
      split: sum.splits prod.splits dest!: getImageData_Inr intro!: enforceLimits_length_le)

lemma setMaxEntries_inv:
  "length (undoStack s) \<le> maxEntries s \<Longrightarrow>
   length (undoStack (setMaxEntries s n)) \<le> maxEntries (setMaxEntries s n)"
  by (auto simp: setMaxEntries_def Let_def split: jsnum.splits intro!: enforceLimits_length_le)

lemma setThumbHeight_fields:
  "undoStack (setThumbHeight s h) = undoStack s"
  "redoStack (setThumbHeight s h) = redoStack s"
  "maxEntries (setThumbHeight s h) = maxEntries s"
  "maxBytes (setThumbHeight s h) = maxBytes s"
  "isTainted (setThumbHeight s h) = isTainted s"
  by (simp_all add: setThumbHeight_def Let_def split: jsnum.splits)

lemma thumbFinalize_fields:
  "undoStack (thumbFinalize s img url) = undoStack s"
  "redoStack (thumbFinalize s img url) = redoStack s"
  "maxEntries (thumbFinalize s img url) = maxEntries s"
  "maxBytes (thumbFinalize s img url) = maxBytes s"
  "isTainted (thumbFinalize s img url) = isTainted s"
  by (simp_all add: thumbFinalize_def Let_def)

lemma thumbJobDone_fields:
  "undoStack (thumbJobDone s i outcome) = undoStack s"
  "redoStack (thumbJobDone s i outcome) = redoStack s"
  "maxEntries (thumbJobDone s i outcome) = maxEntries s"
  "maxBytes (thumbJobDone s i outcome) = maxBytes s"
  "isTainted (thumbJobDone s i outcome) = isTainted s"
  by (simp_all add: thumbJobDone_def Let_def thumbFinalize_fields split: option.splits)

lemma initHistory_stacks:
  "undoStack (initHistory s ctx arg) = []"
  "redoStack (initHistory s ctx arg) = []"
  "isTainted (initHistory s ctx arg) = False"
  by (simp_all add: initHistory_def Let_def)

lemma step_inv:
  "length (undoStack s) \<le> maxEntries s \<Longrightarrow>
   length (undoStack (step s c)) \<le> maxEntries (step s c)"
  by (cases c)
    (simp_all add: pushHistory_inv undo_inv redo_inv setMaxEntries_inv setThumbHeight_fields
       thumbJobDone_fields restoreImageData_def initHistory_stacks)

lemma run_inv:
  "length (undoStack s) \<le> maxEntries s \<Longrightarrow>
   length (undoStack (run s cs)) \<le> maxEntries (run s cs)"
  by (induction cs arbitrary: s) (simp_all add: step_inv)

lemma pushHistory_success_redo:
  "snd (pushHistory s lbl env) \<Longrightarrow> redoStack (fst (pushHistory s lbl env)) = []"
  by (auto simp: pushHistory_def Let_def scheduleThumbGeneration_def
      split: sum.splits prod.splits if_splits dest!: getImageData_Inr)

lemma pushHistory_failure_stacks:
  "\<not> snd (pushHistory s lbl env) \<Longrightarrow>
     undoStack (fst (pushHistory s lbl env)) = undoStack s \<and>
     redoStack (fst (pushHistory s lbl env)) = redoStack s \<and>
     metaMap (fst (pushHistory s lbl env)) = metaMap s"
  by (auto simp: pushHistory_def Let_def split: sum.splits prod.splits if_splits)

lemma pushHistory_failure_taint:
  "\<not> snd (pushHistory s lbl env) \<Longrightarrow> isTainted s \<Longrightarrow> isTainted (fst (pushHistory s lbl env))"
  by (auto simp: pushHistory_def Let_def split: sum.splits prod.splits if_splits)

lemma pushHistory_success_taint:
  "snd (pushHistory s lbl env) \<Longrightarrow> \<not> isTainted (fst (pushHistory s lbl env))"
  by (auto simp: pushHistory_def Let_def scheduleThumbGeneration_def
      split: sum.splits prod.splits if_splits)

lemma undo_tainted: "isTainted s \<Longrightarrow> undo s env = (s, None)"
  by (simp add: undo_def)

lemma redo_tainted: "isTainted s \<Longrightarrow> redo s env = (s, None)"
  by (simp add: redo_def)

lemma setMaxEntries_isTainted: "isTainted (setMaxEntries s n) = isTainted s"
  by (simp add: setMaxEntries_def Let_def split: jsnum.splits)

lemma pushHistory_true_reads:
  "snd (pushHistory s lbl env) \<Longrightarrow> \<not> isl (getImageData s env)"
  by (auto simp: pushHistory_def Let_def split: sum.splits prod.splits if_splits)

lemma step_keeps_taint:
  assumes "isTainted s" "\<not> isTainted (step s c)"
  shows "(\<exists>ctx arg. c = InitHistory ctx arg) \<or>
         (\<exists>lbl env. c = Push lbl env \<and> \<not> isl (getImageData s env) \<and>
            snd (pushHistory s lbl env)) \<or>
         (\<exists>env. c = RestoreImageData env \<and> \<not> isl (getImageData s env) \<and>
            snd (pushHistory s None env))"
proof (cases c)
  case (InitHistory ctx arg)
  then show ?thesis by simp
next
  case (Push lbl env)
  with assms show ?thesis
    using pushHistory_failure_taint [of s lbl env] pushHistory_true_reads [of s lbl env]
    by auto
next
  case (RestoreImageData env)
  with assms show ?thesis
    using pushHistory_failure_taint [of s None env] pushHistory_true_reads [of s None env]
    by (auto simp: restoreImageData_def split: if_splits)
next
  case (Undo env)
  with assms show ?thesis by (simp add: undo_tainted)
next
  case (Redo env)
  with assms show ?thesis by (simp add: redo_tainted)
next
  case (SetMaxEntries n)
  with assms show ?thesis by (simp add: setMaxEntries_isTainted)
next
  case (SetThumbHeight h)
  with assms show ?thesis by (simp add: setThumbHeight_fields)
next
  case (ThumbJobDone i outcome)
  with assms show ?thesis by (simp add: thumbJobDone_fields)
qed

lemma getImageData_ok:
  assumes "canvasRef s" "ctxRef s" "0 < canvas_width env" "0 < canvas_height env"
    "pixel_read env = Inr bytes"
  shows "getImageData s env =
     Inr (\<lparr>ident = nextId s, width = canvas_width env, height = canvas_height env, data = bytes\<rparr>,
          s\<lparr>nextId := Suc (nextId s)\<rparr>)"
  using assms by (simp add: getImageData_def)

lemma getImageData_fail:
  assumes "canvasRef s" "ctxRef s" "0 < canvas_width env" "0 < canvas_height env"
    "pixel_read env = Inl e"
  shows "getImageData s env = Inl e"
  using assms by (simp add: getImageData_def)

lemma entries_from_upd:
  "k \<notin> ident ` set xs \<Longrightarrow> entries_from (mm(k := v)) i xs = entries_from mm i xs"
  by (induction xs arbitrary: i) (auto simp: entry_of_def)

lemma entries_from_nth:
  "j < length xs \<Longrightarrow> entries_from mm i xs ! j = entry_of mm (i + j) (xs ! j)"
proof (induction xs arbitrary: i j)
  case Nil
  then show ?case by simp
next
  case (Cons x xs)
  then show ?case by (cases j) simp_all
qed

lemma enforceLimits_bytes_le:
  assumes "maxBytes s = Some mb" "mb > 0" "redoStack s = []"
  shows "getEstimatedBytes (enforceLimits s) \<le> mb"
  using enforceLimits_bytes [OF assms(1,2)] assms(3)
  by (auto simp: getEstimatedBytes_def estimate_def)

lemma pushHistory_success_bytes:
  assumes "maxBytes s = Some mb" "mb > 0" "snd (pushHistory s lbl env)"
  shows "getEstimatedBytes (fst (pushHistory s lbl env)) \<le> mb"
proof -
  have *: "getEstimatedBytes (updateUI t ex) = getEstimatedBytes t" for t ex
    by (simp add: getEstimatedBytes_def)
  have **: "getEstimatedBytes (t\<lparr>isTainted := b\<rparr>) = getEstimatedBytes t" for t b
    by (simp add: getEstimatedBytes_def)
  have ***: "getEstimatedBytes (scheduleThumbGeneration t x) = getEstimatedBytes t" for t x
    by (simp add: getEstimatedBytes_def scheduleThumbGeneration_def)
  show ?thesis
    using assms
    by (auto simp: pushHistory_def Let_def * ** ***
        split: sum.splits prod.splits if_splits dest!: getImageData_Inr
        intro!: enforceLimits_bytes_le)
qed

lemma setMaxEntries_bytes:
  assumes "maxBytes s = Some mb" "mb > 0" "n = Num q" "q > 0"
  shows "undoStack (setMaxEntries s n) = [] \<or> getEstimatedBytes (setMaxEntries s n) \<le> mb"
  using assms enforceLimits_bytes [of "s\<lparr>maxEntries := floor_nat q\<rparr>" mb]
  by (auto simp: setMaxEntries_def Let_def getEstimatedBytes_def)

lemma redo_bytes:
  assumes "maxBytes s = Some mb" "mb > 0" "canRedo s" "\<not> isl (getImageData s env)"
  shows "undoStack (fst (redo s env)) = [] \<or> getEstimatedBytes (fst (redo s env)) \<le> mb"
proof -
  let ?sp = "s\<lparr>redoStack := butlast (redoStack s)\<rparr>"
  from assms(4) obtain cur s0 where g: "getImageData s env = Inr (cur, s0)"
    by (cases "getImageData s env") auto
  then have g': "getImageData ?sp env = Inr (cur, ?sp\<lparr>nextId := Suc (nextId s)\<rparr>)"
    by (auto simp: getImageData_def split: if_splits sum.splits)
  let ?t = "?sp\<lparr>nextId := Suc (nextId s), undoStack := undoStack s @ [cur],
      metaMap := (metaMap s)(ident cur \<mapsto>
        \<lparr>ts = Some (clock env), label = Some ''undo-base'', thumbDataUrl = None\<rparr>)\<rparr>"
  have r: "fst (redo s env) = fst (redo_return (enforceLimits ?t) (last (redoStack s)))"
    using assms(3) g' by (simp add: redo_def canRedo_def Let_def)
  have "undoStack (enforceLimits ?t) = [] \<or>
        estimate (undoStack (enforceLimits ?t)) (redoStack ?t) \<le> mb"
    using assms(1,2) by (intro enforceLimits_bytes) simp_all
  then show ?thesis
    by (simp add: r redo_return_fields getEstimatedBytes_def)
qed

lemma enforceLimits_fits:
  assumes "length (undoStack s) \<le> maxEntries s"
    and "case maxBytes s of None \<Rightarrow> True
         | Some mb \<Rightarrow> mb = 0 \<or> stack_bytes (undoStack s) + stack_bytes (redoStack s) \<le> mb"
  shows "enforceLimits s = s"
  using assms
  by (auto simp: enforceLimits_def Let_def evict_count_id evict_bytes_id estimate_def
      split: option.splits)

lemma stack_bytes_append: "stack_bytes (xs @ ys) = stack_bytes xs + stack_bytes ys"
  by (induction xs) simp_all

lemma pushHistory_fits:
  assumes "canvasRef s" "ctxRef s" "0 < canvas_width env" "0 < canvas_height env"
    and "pixel_read env = Inr bytes"
    and "length (undoStack s) < maxEntries s"
    and "case maxBytes s of None \<Rightarrow> True
         | Some mb \<Rightarrow> mb = 0 \<or>
             stack_bytes (undoStack s) + canvas_width env * canvas_height env * 4 \<le> mb"
    and "p = pushHistory s lbl env"
  shows "snd p \<and>
     undoStack (fst p) = undoStack s @
       [\<lparr>ident = nextId s, width = canvas_width env, height = canvas_height env, data = bytes\<rparr>] \<and>
     redoStack (fst p) = [] \<and> \<not> isTainted (fst p) \<and>
     canvasRef (fst p) \<and> ctxRef (fst p) \<and> maxEntries (fst p) = maxEntries s \<and>
     maxBytes (fst p) = maxBytes s \<and> protectReturned (fst p) = protectReturned s \<and>
     nextId (fst p) = Suc (nextId s)"
proof -
  let ?img = "\<lparr>ident = nextId s, width = canvas_width env, height = canvas_height env,
                data = bytes\<rparr>"
  let ?s2 = "s\<lparr>nextId := Suc (nextId s), undoStack := undoStack s @ [?img],
           metaMap := (metaMap s)(nextId s \<mapsto>
             \<lparr>ts = Some (clock env), label = Some (case lbl of None \<Rightarrow> [] | Some l \<Rightarrow> l),
              thumbDataUrl = None\<rparr>),
           redoStack := []\<rparr>"
  have e: "enforceLimits ?s2 = ?s2"
    using assms(6,7) by (intro enforceLimits_fits) (auto simp: stack_bytes_append split: option.splits)
  show ?thesis
    using assms(1-5) e
    by (simp add: assms(8) pushHistory_def getImageData_ok Let_def scheduleThumbGeneration_def)
qed

lemma undo_reads:
  assumes "canvasRef s" "ctxRef s" "0 < canvas_width env" "0 < canvas_height env"
    and "pixel_read env = Inr bytes"
    and "\<not> isTainted s" "undoStack s = us @ [x]"
    and "p = undo s env"
  shows "map_option data (snd p) = Some (data x) \<and>
     (\<not> protectReturned s \<longrightarrow> snd p = Some x) \<and>
     undoStack (fst p) = us \<and>
     redoStack (fst p) = redoStack s @
       [\<lparr>ident = nextId s, width = canvas_width env, height = canvas_height env, data = bytes\<rparr>] \<and>
     \<not> isTainted (fst p) \<and>
     canvasRef (fst p) \<and> ctxRef (fst p) \<and> maxEntries (fst p) = maxEntries s \<and>
     maxBytes (fst p) = maxBytes s \<and> protectReturned (fst p) = protectReturned s \<and>
     (protectReturned s \<longrightarrow> map_option ident (snd p) = Some (Suc (nextId s))) \<and>
     nextId (fst p) = (if protectReturned s then Suc (Suc (nextId s)) else Suc (nextId s))"
  using assms(1-7)
  by (simp add: assms(8) undo_def canUndo_def getImageData_ok undo_pop_def Let_def
      cloneImageData_def)

lemma redo_reads:
  assumes "canvasRef s" "ctxRef s" "0 < canvas_width env" "0 < canvas_height env"
    and "pixel_read env = Inr bytes"
    and "\<not> isTainted s" "redoStack s = rs @ [x]"
    and "length (undoStack s) < maxEntries s"
    and "case maxBytes s of None \<Rightarrow> True
         | Some mb \<Rightarrow> mb = 0 \<or>
             stack_bytes (undoStack s) + canvas_width env * canvas_height env * 4
               + stack_bytes rs \<le> mb"
    and "p = redo s env"
  shows "map_option data (snd p) = Some (data x) \<and>
     (\<not> protectReturned s \<longrightarrow> snd p = Some x) \<and>
     undoStack (fst p) = undoStack s @
       [\<lparr>ident = nextId s, width = canvas_width env, height = canvas_height env, data = bytes\<rparr>] \<and>
     redoStack (fst p) = rs \<and> \<not> isTainted (fst p) \<and>
     canvasRef (fst p) \<and> ctxRef (fst p) \<and> maxEntries (fst p) = maxEntries s \<and>
     maxBytes (fst p) = maxBytes s \<and> protectReturned (fst p) = protectReturned s \<and>
     (protectReturned s \<longrightarrow> map_option ident (snd p) = Some (Suc (nextId s)))"
proof -
  let ?img = "\<lparr>ident = nextId s, width = canvas_width env, height = canvas_height env,
                data = bytes\<rparr>"
  let ?t = "s\<lparr>redoStack := rs, nextId := Suc (nextId s), undoStack := undoStack s @ [?img],
      metaMap := (metaMap s)(nextId s \<mapsto>
        \<lparr>ts = Some (clock env), label = Some ''undo-base'', thumbDataUrl = None\<rparr>)\<rparr>"
  have e: "enforceLimits ?t = ?t"
    using assms(8,9) by (intro enforceLimits_fits) (auto simp: stack_bytes_append split: option.splits)
  show ?thesis
    using assms(1-7) e
    by (simp add: assms(10) redo_def canRedo_def getImageData_ok redo_return_def Let_def
        cloneImageData_def)
qed

lemma fresh_not_stored:
  "map_option ident r = Some k \<Longrightarrow> k \<notin> ident ` set xs \<Longrightarrow> r \<notin> Some ` set xs"
  by auto

section \<open>The claims\<close>

subsection \<open>C10: the queries canUndo and canRedo\<close>

text \<open>
  Claim C10. In every state, \<open>canUndo()\<close> is true exactly when the taint flag is false and
  the undo stack is not empty, and \<open>canRedo()\<close> is true exactly when the taint flag is
  false and the redo stack is not empty; while tainted both are false, whatever the stacks
  hold.
\<close>

theorem canUndo_canRedo_iff:
  "(canUndo s \<longleftrightarrow> \<not> isTainted s \<and> undoStack s \<noteq> []) \<and>
   (canRedo s \<longleftrightarrow> \<not> isTainted s \<and> redoStack s \<noteq> []) \<and>
   (isTainted s \<longrightarrow> \<not> canUndo s \<and> \<not> canRedo s)"
  by (simp add: canUndo_def canRedo_def)

text \<open>
  On the tainted history both stacks hold a snapshot and both queries are false; on the
  history before the failed push both are true.
\<close>

theorem canUndo_canRedo_iff_witness:
  "isTainted tainted_history \<and> undoStack tainted_history \<noteq> [] \<and>
   redoStack tainted_history \<noteq> [] \<and>
   \<not> canUndo tainted_history \<and> \<not> canRedo tainted_history \<and>
   canUndo navigated_history \<and> canRedo navigated_history"
proof -
  have t: "isTainted tainted_history" by code_simp
  have u: "undoStack tainted_history \<noteq> []" by code_simp
  have r: "redoStack tainted_history \<noteq> []" by code_simp
  have n: "\<not> isTainted navigated_history \<and> undoStack navigated_history \<noteq> []"
    "\<not> isTainted navigated_history \<and> redoStack navigated_history \<noteq> []"
    by code_simp+
  from canUndo_canRedo_iff [of tainted_history] t
  have a: "\<not> canUndo tainted_history \<and> \<not> canRedo tainted_history" by blast
  from canUndo_canRedo_iff [of navigated_history] n
  have b: "canUndo navigated_history \<and> canRedo navigated_history" by blast
  from t u r a b show ?thesis by blast
qed

subsection \<open>C9: eviction order\<close>

text \<open>
  Claim C9. Whatever eviction removes to meet the count limit or the byte limit, it removes
  the oldest snapshots first: the undo stack after \<open>_enforceLimits\<close> is the stack before
  it without its first \<open>k\<close> entries, for some \<open>k\<close>; the choice looks at no size and no
  label. The metadata entry of each evicted snapshot is deleted, every other entry is kept,
  and the redo stack is not touched.
\<close>

theorem eviction_removes_oldest_prefix:
  "\<exists>k\<le>length (undoStack s).
     undoStack (enforceLimits s) = drop k (undoStack s) \<and>
     (\<forall>i. metaMap (enforceLimits s) i =
        (if i \<in> ident ` set (take k (undoStack s)) then None else metaMap s i)) \<and>
     redoStack (enforceLimits s) = redoStack s"
proof -
  from enforceLimits_prefix [of s] obtain k where k: "k \<le> length (undoStack s)"
    "undoStack (enforceLimits s) = drop k (undoStack s)"
    "metaMap (enforceLimits s) =
       (\<lambda>i. if i \<in> ident ` set (take k (undoStack s)) then None else metaMap s i)"
    by blast
  then show ?thesis by (intro exI [of _ k]) simp
qed

text \<open>
  Three snapshots (identities 0, 1, 2) under a limit of one entry: the two oldest go, with
  their metadata, and the newest stays with its metadata.
\<close>

theorem eviction_removes_oldest_prefix_witness:
  "(\<exists>k\<le>length (undoStack (three_pushes\<lparr>maxEntries := 1\<rparr>)).
     undoStack (enforceLimits (three_pushes\<lparr>maxEntries := 1\<rparr>))
       = drop k (undoStack (three_pushes\<lparr>maxEntries := 1\<rparr>)) \<and>
     (\<forall>i. metaMap (enforceLimits (three_pushes\<lparr>maxEntries := 1\<rparr>)) i =
        (if i \<in> ident ` set (take k (undoStack (three_pushes\<lparr>maxEntries := 1\<rparr>))) then None
         else metaMap (three_pushes\<lparr>maxEntries := 1\<rparr>) i)) \<and>
     redoStack (enforceLimits (three_pushes\<lparr>maxEntries := 1\<rparr>))
       = redoStack (three_pushes\<lparr>maxEntries := 1\<rparr>)) \<and>
   map ident (undoStack three_pushes) = [0, 1, 2] \<and>
   map ident (undoStack (enforceLimits (three_pushes\<lparr>maxEntries := 1\<rparr>))) = [2] \<and>
   metaMap (enforceLimits (three_pushes\<lparr>maxEntries := 1\<rparr>)) 0 = None \<and>
   metaMap (enforceLimits (three_pushes\<lparr>maxEntries := 1\<rparr>)) 1 = None \<and>
   metaMap (enforceLimits (three_pushes\<lparr>maxEntries := 1\<rparr>)) 2 \<noteq> None"
proof -
  have a: "map ident (undoStack three_pushes) = [0, 1, 2]" by code_simp
  have b: "map ident (undoStack (enforceLimits (three_pushes\<lparr>maxEntries := 1\<rparr>))) = [2]"
    by code_simp
  have c: "metaMap (enforceLimits (three_pushes\<lparr>maxEntries := 1\<rparr>)) 0 = None" by code_simp
  have d: "metaMap (enforceLimits (three_pushes\<lparr>maxEntries := 1\<rparr>)) 1 = None" by code_simp
  have e: "metaMap (enforceLimits (three_pushes\<lparr>maxEntries := 1\<rparr>)) 2 \<noteq> None" by code_simp
  from eviction_removes_oldest_prefix [of "three_pushes\<lparr>maxEntries := 1\<rparr>"] a b c d e
  show ?thesis by blast
qed

subsection \<open>C3: the count limit\<close>

text \<open>
  Claim C3. After \<open>initHistory\<close>, after every call of every sequence of calls (push, undo,
  redo, \<open>setMaxEntries\<close>, and also \<open>setThumbHeight\<close>, \<open>restoreImageData\<close>, the
  completion of a thumbnail job and another \<open>initHistory\<close>) the undo stack has at most \<open>maxEntries\<close> entries, for
  the value of \<open>maxEntries\<close> at that moment. The sequence is arbitrary, so the bound
  holds after each of its prefixes, in particular right after a \<open>setMaxEntries\<close> that
  lowers the limit below the length of the stack.
\<close>

theorem undo_stack_within_maxEntries:
  "length (undoStack (run (initHistory s0 ctx arg) cs))
     \<le> maxEntries (run (initHistory s0 ctx arg) cs)"
  by (rule run_inv) (simp add: initHistory_stacks)

text \<open>Three pushes under the default limit, then \<open>setMaxEntries(2)\<close>: two entries remain.\<close>

theorem undo_stack_within_maxEntries_witness:
  "length (undoStack (run (initHistory (module_state NotFinite 0) True Callback) lowering_calls))
     \<le> maxEntries (run (initHistory (module_state NotFinite 0) True Callback) lowering_calls) \<and>
   length (undoStack (run (initHistory (module_state NotFinite 0) True Callback)
     (butlast lowering_calls))) = 3 \<and>
   maxEntries (run (initHistory (module_state NotFinite 0) True Callback) lowering_calls) = 2 \<and>
   length (undoStack (run (initHistory (module_state NotFinite 0) True Callback) lowering_calls)) = 2"
proof -
  have b: "length (undoStack (run (initHistory (module_state NotFinite 0) True Callback)
     (butlast lowering_calls))) = 3" by code_simp
  have c: "maxEntries (run (initHistory (module_state NotFinite 0) True Callback) lowering_calls) = 2"
    by code_simp
  have d: "length (undoStack (run (initHistory (module_state NotFinite 0) True Callback)
     lowering_calls)) = 2" by code_simp
  from undo_stack_within_maxEntries [of "module_state NotFinite 0" True Callback lowering_calls]
    b c d
  show ?thesis by blast
qed

subsection \<open>C5: push and the redo stack\<close>

text \<open>
  Claim C5, as the code has it. A push that returns true leaves the redo stack empty. A push
  that returns false (no canvas, a canvas of width 0, or a failed surface read) returns
  before the redo stack is cleared and leaves both stacks as they were; so the redo count
  after a push is 0 only when the push succeeded or the redo stack was empty already.
\<close>

theorem push_clears_redo_when_it_succeeds:
  "(snd (pushHistory s lbl env) \<longrightarrow> getRedoCount (fst (pushHistory s lbl env)) = 0) \<and>
   (\<not> snd (pushHistory s lbl env) \<longrightarrow>
      redoStack (fst (pushHistory s lbl env)) = redoStack s \<and>
      undoStack (fst (pushHistory s lbl env)) = undoStack s)"
  using pushHistory_success_redo [of s lbl env] pushHistory_failure_stacks [of s lbl env]
  by (simp add: getRedoCount_def)

text \<open>
  On a history with one redo entry: a push of a readable surface succeeds and empties the
  redo stack; a push of a zero-width canvas fails and changes neither stack.
\<close>

theorem push_clears_redo_when_it_succeeds_witness:
  "getRedoCount navigated_history = 1 \<and>
   snd (pushHistory navigated_history None surface_A) \<and>
   getRedoCount (fst (pushHistory navigated_history None surface_A)) = 0 \<and>
   \<not> snd (pushHistory navigated_history None (surface_A\<lparr>canvas_width := 0\<rparr>)) \<and>
   redoStack (fst (pushHistory navigated_history None (surface_A\<lparr>canvas_width := 0\<rparr>)))
     = redoStack navigated_history \<and>
   undoStack (fst (pushHistory navigated_history None (surface_A\<lparr>canvas_width := 0\<rparr>)))
     = undoStack navigated_history"
proof -
  have a: "getRedoCount navigated_history = 1" by code_simp
  have b: "snd (pushHistory navigated_history None surface_A)" by code_simp
  have c: "\<not> snd (pushHistory navigated_history None (surface_A\<lparr>canvas_width := 0\<rparr>))"
    by code_simp
  from push_clears_redo_when_it_succeeds [of navigated_history None surface_A] b
  have d: "getRedoCount (fst (pushHistory navigated_history None surface_A)) = 0" by blast
  from push_clears_redo_when_it_succeeds
    [of navigated_history None "surface_A\<lparr>canvas_width := 0\<rparr>"] c
  have e: "redoStack (fst (pushHistory navigated_history None (surface_A\<lparr>canvas_width := 0\<rparr>)))
     = redoStack navigated_history \<and>
   undoStack (fst (pushHistory navigated_history None (surface_A\<lparr>canvas_width := 0\<rparr>)))
     = undoStack navigated_history" by blast
  from a b c d e show ?thesis by blast
qed

text \<open>
  The claim as stated (every push, whatever it returns, leaves the redo count at 0) fails: on
  a history with one redo entry, a push whose surface read raises the SecurityError returns
  false and the redo entry is still there.
\<close>

theorem push_redo_count_counterexample:
  "\<not> snd (pushHistory navigated_history None surface_tainted) \<and>
   getRedoCount (fst (pushHistory navigated_history None surface_tainted)) = 1 \<and>
   getRedoCount (fst (pushHistory navigated_history None surface_tainted)) \<noteq> 0"
  by code_simp

subsection \<open>C6: the taint flag\<close>

text \<open>
  Claim C6, as the code has it. While the taint flag is true, \<open>undo()\<close> and \<open>redo()\<close>
  return null and leave the whole state, so both stacks, as it is. The flag turns back to
  false in two places only: in a \<open>pushHistory\<close> whose surface read has succeeded, called
  directly or by \<open>restoreImageData\<close>, and in \<open>initHistory\<close>, which initialises the
  history again and empties both stacks. No other call (undo, redo, \<open>setMaxEntries\<close>,
  \<open>setThumbHeight\<close>, the completion of a thumbnail job) clears it. Every push that
  returns true has cleared it; with a sink that does not throw, as modelled here, the
  pushes whose read succeeds are the pushes that return true.
\<close>

theorem taint_flag_cleared_only_by_push_or_init:
  assumes "isTainted s"
  shows "undo s env = (s, None) \<and> redo s env' = (s, None) \<and>
         (\<not> isTainted (step s c) \<longrightarrow>
            (\<exists>ctx arg. c = InitHistory ctx arg) \<or>
            (\<exists>lbl e. c = Push lbl e \<and> \<not> isl (getImageData s e) \<and>
               snd (pushHistory s lbl e)) \<or>
            (\<exists>e. c = RestoreImageData e \<and> \<not> isl (getImageData s e) \<and>
               snd (pushHistory s None e))) \<and>
         (snd (pushHistory s lbl env'') \<longrightarrow> \<not> isTainted (fst (pushHistory s lbl env''))) \<and>
         \<not> isTainted (initHistory s ctx arg) \<and>
         undoStack (initHistory s ctx arg) = [] \<and> redoStack (initHistory s ctx arg) = []"
  using assms step_keeps_taint [of s c] pushHistory_success_taint [of s lbl env'']
  by (simp add: undo_tainted redo_tainted initHistory_stacks)

text \<open>
  On the tainted history, with a snapshot on each stack: undo and redo return null and
  change nothing, \<open>setMaxEntries(3)\<close> leaves the flag set, a push of a readable surface
  returns true and clears it, and \<open>initHistory\<close> clears it and empties the stacks.
\<close>

theorem taint_flag_cleared_only_by_push_or_init_witness:
  "isTainted tainted_history \<and>
   getUndoCount tainted_history = 1 \<and> getRedoCount tainted_history = 1 \<and>
   undo tainted_history surface_A = (tainted_history, None) \<and>
   redo tainted_history surface_A = (tainted_history, None) \<and>
   isTainted (step tainted_history (SetMaxEntries (Num 3))) \<and>
   snd (pushHistory tainted_history None surface_A) \<and>
   \<not> isTainted (fst (pushHistory tainted_history None surface_A)) \<and>
   \<not> isTainted (step tainted_history (Push None surface_A)) \<and>
   \<not> isTainted (initHistory tainted_history True Callback) \<and>
   undoStack (initHistory tainted_history True Callback) = []"
proof -
  have t: "isTainted tainted_history" by code_simp
  have n: "getUndoCount tainted_history = 1 \<and> getRedoCount tainted_history = 1" by code_simp
  have p: "snd (pushHistory tainted_history None surface_A)" by code_simp
  note th = taint_flag_cleared_only_by_push_or_init [OF t]
  from th [of surface_A surface_A "SetMaxEntries (Num 3)" None surface_A True Callback]
  have a: "undo tainted_history surface_A = (tainted_history, None)"
    and b: "redo tainted_history surface_A = (tainted_history, None)"
    and c: "isTainted (step tainted_history (SetMaxEntries (Num 3)))"
    and i: "\<not> isTainted (initHistory tainted_history True Callback)"
      "undoStack (initHistory tainted_history True Callback) = []"
    by auto
  from th [of surface_A surface_A "SetMaxEntries (Num 3)" None surface_A True Callback] p
  have d: "\<not> isTainted (fst (pushHistory tainted_history None surface_A))" by blast
  then have e: "\<not> isTainted (step tainted_history (Push None surface_A))" by simp
  from t n a b c p d e i show ?thesis by blast
qed

text \<open>
  The claim as stated (only a push that returns true clears the flag, no other operation
  does) fails: \<open>initHistory\<close> on the tainted history is no push, and after it the flag
  is false.
\<close>

theorem taint_flag_cleared_by_init_counterexample:
  "isTainted tainted_history \<and>
   \<not> isTainted (step tainted_history (InitHistory True Callback)) \<and>
   \<not> isTainted (initHistory tainted_history True Callback)"
  by code_simp

subsection \<open>C7: invalid configuration values\<close>

text \<open>
  Claim C7, as the code has it. The setters reject an invalid value and keep the state as it
  is: \<open>setMaxEntries\<close> a value that is not a finite number or is not positive,
  \<open>setThumbHeight\<close> a value that is not a finite number or lies outside [48, 256].
  \<open>initHistory\<close> with an options object replaces an invalid \<open>maxEntries\<close> by the
  default 50, whatever the value was before, and keeps the thumbnail height it had when
  the \<open>thumbHeight\<close> given is not a finite number, is at most 16 or is above 256.
\<close>

theorem invalid_configuration_values:
  "((case n of NotFinite \<Rightarrow> True | Num q \<Rightarrow> q \<le> 0) \<longrightarrow> setMaxEntries s n = s) \<and>
   ((case h of NotFinite \<Rightarrow> True | Num q \<Rightarrow> q < 48 \<or> 256 < q) \<longrightarrow> setThumbHeight s h = s) \<and>
   ((case me of NotFinite \<Rightarrow> True | Num q \<Rightarrow> q \<le> 0) \<longrightarrow>
      maxEntries (initHistory s ctx (Options (opts\<lparr>opt_maxEntries := Some me\<rparr>)))
        = DEFAULT_MAX_ENTRIES) \<and>
   ((case th of NotFinite \<Rightarrow> True | Num q \<Rightarrow> q \<le> 16 \<or> 256 < q) \<longrightarrow>
      thumbHeight (initHistory s ctx (Options (opts\<lparr>opt_thumbHeight := Some th\<rparr>)))
        = thumbHeight s)"
  by (auto simp: setMaxEntries_def setThumbHeight_def initHistory_def Let_def
      init_maxEntries_def init_thumbHeight_def split: jsnum.splits)

text \<open>
  On the history with three snapshots: \<open>setMaxEntries(-1)\<close> and \<open>setThumbHeight(20)\<close>
  change nothing; \<open>initHistory\<close> with \<open>maxEntries: 0\<close> gives the limit 50 and with
  \<open>thumbHeight: 300\<close> keeps the height.
\<close>

theorem invalid_configuration_values_witness:
  "setMaxEntries three_pushes (Num (- 1)) = three_pushes \<and>
   setThumbHeight three_pushes (Num 20) = three_pushes \<and>
   maxEntries (initHistory three_pushes True
     (Options (plain_options\<lparr>opt_maxEntries := Some (Num 0)\<rparr>))) = DEFAULT_MAX_ENTRIES \<and>
   thumbHeight (initHistory three_pushes True
     (Options (plain_options\<lparr>opt_thumbHeight := Some (Num 300)\<rparr>))) = thumbHeight three_pushes"
  using invalid_configuration_values
    [of "Num (- 1)" three_pushes "Num 20" "Num 0" True plain_options "Num 300"]
  by simp

text \<open>
  The claim as stated (an invalid value given at initialisation is rejected and the value
  in effect before is kept; a thumbnail height outside [48, 256] is invalid) fails. The
  module loaded with a persisted limit of 20 and initialised with \<open>maxEntries: -1\<close> has the
  limit 50, not 20; and initialised with \<open>thumbHeight: 20\<close>, below 48, it has the thumbnail
  height 20, not the 96 it had.
\<close>

theorem invalid_configuration_values_counterexample:
  "maxEntries (module_state (Num 20) 0) = 20 \<and>
   maxEntries (initHistory (module_state (Num 20) 0) True
     (Options (plain_options\<lparr>opt_maxEntries := Some (Num (- 1))\<rparr>))) = 50 \<and>
   thumbHeight (module_state (Num 20) 0) = Num 96 \<and>
   thumbHeight (initHistory (module_state (Num 20) 0) True
     (Options (plain_options\<lparr>opt_thumbHeight := Some (Num 20)\<rparr>))) = Num 20"
  by code_simp

subsection \<open>C2: a surface read that raises a security error\<close>

text \<open>
  Claim C2 says that when the surface read inside push, undo or redo raises a security
  error, the taint flag is set, the operation returns false or null, and neither stack is
  changed. The code does this in \<open>pushHistory\<close> and in \<open>undo\<close>, which read the surface
  before they touch a stack. \<open>redo\<close> pops the redo stack first and reads the surface
  afterwards: on the same failure it sets the flag and returns null, and the popped
  snapshot is gone from the redo stack. The theorem states what each of the three does.
\<close>

theorem security_failure_of_the_surface_read:
  assumes "canvasRef s" "ctxRef s" "0 < canvas_width env" "0 < canvas_height env"
    and "pixel_read env = Inl e" "is_taint_error e"
  shows "pushHistory s lbl env = (updateUI (s\<lparr>isTainted := True\<rparr>) (TaintedExtra True), False) \<and>
    (canUndo s \<longrightarrow>
       undo s env = (updateUI (s\<lparr>isTainted := True\<rparr>) (TaintedExtra True), None)) \<and>
    (canRedo s \<longrightarrow>
       redo s env =
         (updateUI (s\<lparr>redoStack := butlast (redoStack s), isTainted := True\<rparr>)
            (TaintedExtra True), None))"
proof -
  have g: "getImageData s env = Inl e"
    using assms by (simp add: getImageData_fail)
  have g': "getImageData (s\<lparr>redoStack := butlast (redoStack s)\<rparr>) env = Inl e"
    using assms by (simp add: getImageData_fail)
  have "pushHistory s lbl env = (updateUI (s\<lparr>isTainted := True\<rparr>) (TaintedExtra True), False)"
    using assms g by (simp add: pushHistory_def)
  moreover have "canUndo s \<longrightarrow>
      undo s env = (updateUI (s\<lparr>isTainted := True\<rparr>) (TaintedExtra True), None)"
    using assms g by (simp add: undo_def canUndo_def)
  moreover have "canRedo s \<longrightarrow> redo s env =
           (updateUI (s\<lparr>redoStack := butlast (redoStack s), isTainted := True\<rparr>)
              (TaintedExtra True), None)"
    using assms g' by (simp add: redo_def canRedo_def Let_def)
  ultimately show ?thesis by blast
qed

text \<open>
  The failing input: a history with one snapshot on each stack, and \<open>redo()\<close> on a canvas
  whose read raises the SecurityError. \<open>redo\<close> returns null and sets the flag, and the
  redo stack, which held one snapshot, is empty; \<open>undo\<close> and push on the same input
  leave both stacks as they were.
\<close>

theorem security_failure_of_the_surface_read_witness:
  "is_taint_error security_error \<and> canUndo navigated_history \<and> canRedo navigated_history \<and>
   getUndoCount navigated_history = 1 \<and> getRedoCount navigated_history = 1 \<and>
   snd (redo navigated_history surface_tainted) = None \<and>
   isTainted (fst (redo navigated_history surface_tainted)) \<and>
   getUndoCount (fst (redo navigated_history surface_tainted)) = 1 \<and>
   getRedoCount (fst (redo navigated_history surface_tainted)) = 0 \<and>
   snd (undo navigated_history surface_tainted) = None \<and>
   isTainted (fst (undo navigated_history surface_tainted)) \<and>
   getUndoCount (fst (undo navigated_history surface_tainted)) = 1 \<and>
   getRedoCount (fst (undo navigated_history surface_tainted)) = 1 \<and>
   snd (pushHistory navigated_history None surface_tainted) = False \<and>
   getUndoCount (fst (pushHistory navigated_history None surface_tainted)) = 1 \<and>
   getRedoCount (fst (pushHistory navigated_history None surface_tainted)) = 1"
proof -
  have h: "canvasRef navigated_history" "ctxRef navigated_history"
    "0 < canvas_width surface_tainted" "0 < canvas_height surface_tainted"
    "pixel_read surface_tainted = Inl security_error" "is_taint_error security_error"
    by code_simp+
  have c: "canUndo navigated_history" "canRedo navigated_history" by code_simp+
  have n: "getUndoCount navigated_history = 1" "getRedoCount navigated_history = 1"
    by code_simp+
  have l: "length (butlast (redoStack navigated_history)) = 0"
    using n(2) by (simp add: getRedoCount_def)
  note th = security_failure_of_the_surface_read [OF h, of None]
  from th c(2) have r: "redo navigated_history surface_tainted =
      (updateUI (navigated_history\<lparr>redoStack := butlast (redoStack navigated_history),
         isTainted := True\<rparr>) (TaintedExtra True), None)" by blast
  from th c(1) have u: "undo navigated_history surface_tainted =
      (updateUI (navigated_history\<lparr>isTainted := True\<rparr>) (TaintedExtra True), None)" by blast
  from th have p: "pushHistory navigated_history None surface_tainted =
      (updateUI (navigated_history\<lparr>isTainted := True\<rparr>) (TaintedExtra True), False)" by blast
  have "snd (redo navigated_history surface_tainted) = None \<and>
   isTainted (fst (redo navigated_history surface_tainted)) \<and>
   getUndoCount (fst (redo navigated_history surface_tainted)) = 1 \<and>
   getRedoCount (fst (redo navigated_history surface_tainted)) = 0"
    using n l by (simp add: r getUndoCount_def getRedoCount_def)
  moreover have "snd (undo navigated_history surface_tainted) = None \<and>
   isTainted (fst (undo navigated_history surface_tainted)) \<and>
   getUndoCount (fst (undo navigated_history surface_tainted)) = 1 \<and>
   getRedoCount (fst (undo navigated_history surface_tainted)) = 1"
    using n by (simp add: u getUndoCount_def getRedoCount_def)
  moreover have "snd (pushHistory navigated_history None surface_tainted) = False \<and>
   getUndoCount (fst (pushHistory navigated_history None surface_tainted)) = 1 \<and>
   getRedoCount (fst (pushHistory navigated_history None surface_tainted)) = 1"
    using n by (simp add: p getUndoCount_def getRedoCount_def)
  ultimately show ?thesis using h(6) c n by blast
qed

subsection \<open>C8: a thumbnail that completes late\<close>

text \<open>
  Claim C8, as the code has it. The completion of a thumbnail job makes no check that its
  snapshot is still in the store. It writes the preview into the metadata table under the
  identity of the snapshot (creating the entry when eviction has deleted it) and emits one
  notification, present or not. Neither stack changes. When the snapshot is no longer in
  the undo stack the list of entries (\<open>getHistoryThumbnails\<close>, which is also the list of
  the notification) is the same as before, so the write is not visible there; when it is
  still in the undo stack its entry shows the preview.
\<close>

theorem thumbnail_completion_without_liveness_check:
  assumes "i < length (thumbJobs s)"
  shows "(\<exists>m. metaMap (thumbJobDone s i (Some url)) (ident (thumbJobs s ! i)) = Some m \<and>
            thumbDataUrl m = Some url) \<and>
     (updateUICallback s \<longrightarrow>
        length (uiLog (thumbJobDone s i (Some url))) = Suc (length (uiLog s))) \<and>
     undoStack (thumbJobDone s i (Some url)) = undoStack s \<and>
     redoStack (thumbJobDone s i (Some url)) = redoStack s \<and>
     (ident (thumbJobs s ! i) \<notin> ident ` set (undoStack s) \<longrightarrow>
        getHistoryThumbnails (thumbJobDone s i (Some url)) = getHistoryThumbnails s) \<and>
     (\<forall>j<length (undoStack s). ident (undoStack s ! j) = ident (thumbJobs s ! i) \<longrightarrow>
        e_thumbDataUrl (getHistoryThumbnails (thumbJobDone s i (Some url)) ! j)
          = (if url = [] then None else Some url))"
  using assms
  by (auto simp: thumbJobDone_def thumbFinalize_def Let_def updateUI_def getHistoryThumbnails_def
      entries_from_upd entries_from_nth entry_of_def split: option.splits)

text \<open>
  Two pushes under a limit of one entry: the first snapshot (identity 0) is evicted while
  its job is pending, the second (identity 1) is entry 0 of the undo stack. The job of the
  first completes: the entry list is unchanged and a notification is emitted. The job of
  the second completes: entry 0 shows the preview.
\<close>

theorem thumbnail_completion_without_liveness_check_witness:
  "map ident (thumbJobs evicting_pushes) = [0, 1] \<and>
   map ident (undoStack evicting_pushes) = [1] \<and>
   updateUICallback evicting_pushes \<and>
   length (uiLog (thumbJobDone evicting_pushes 0 (Some ''data:image/webp;base64,AA'')))
     = Suc (length (uiLog evicting_pushes)) \<and>
   getHistoryThumbnails (thumbJobDone evicting_pushes 0 (Some ''data:image/webp;base64,AA''))
     = getHistoryThumbnails evicting_pushes \<and>
   undoStack (thumbJobDone evicting_pushes 0 (Some ''data:image/webp;base64,AA''))
     = undoStack evicting_pushes \<and>
   e_thumbDataUrl
     (getHistoryThumbnails (thumbJobDone evicting_pushes 1 (Some ''data:image/webp;base64,AA'')) ! 0)
     = Some ''data:image/webp;base64,AA''"
proof -
  have j: "map ident (thumbJobs evicting_pushes) = [0, 1]" by code_simp
  have u: "map ident (undoStack evicting_pushes) = [1]" by code_simp
  have c: "updateUICallback evicting_pushes" by code_simp
  have l: "0 < length (thumbJobs evicting_pushes)" "1 < length (thumbJobs evicting_pushes)"
    "0 < length (undoStack evicting_pushes)"
    by code_simp+
  have a: "ident (thumbJobs evicting_pushes ! 0) \<notin> ident ` set (undoStack evicting_pushes)"
    by code_simp
  have p: "ident (undoStack evicting_pushes ! 0) = ident (thumbJobs evicting_pushes ! 1)"
    by code_simp
  note t0 = thumbnail_completion_without_liveness_check
    [OF l(1), of "''data:image/webp;base64,AA''"]
  note t1 = thumbnail_completion_without_liveness_check
    [OF l(2), of "''data:image/webp;base64,AA''"]
  from t0 c a
  have r0: "length (uiLog (thumbJobDone evicting_pushes 0 (Some ''data:image/webp;base64,AA'')))
     = Suc (length (uiLog evicting_pushes)) \<and>
   getHistoryThumbnails (thumbJobDone evicting_pushes 0 (Some ''data:image/webp;base64,AA''))
     = getHistoryThumbnails evicting_pushes \<and>
   undoStack (thumbJobDone evicting_pushes 0 (Some ''data:image/webp;base64,AA''))
     = undoStack evicting_pushes"
    by blast
  from t1 have "\<forall>j<length (undoStack evicting_pushes).
      ident (undoStack evicting_pushes ! j) = ident (thumbJobs evicting_pushes ! 1) \<longrightarrow>
        e_thumbDataUrl (getHistoryThumbnails
          (thumbJobDone evicting_pushes 1 (Some ''data:image/webp;base64,AA'')) ! j)
          = (if ''data:image/webp;base64,AA'' = [] then None
             else Some ''data:image/webp;base64,AA'')"
    by blast
  with l(3) p have r1: "e_thumbDataUrl
     (getHistoryThumbnails (thumbJobDone evicting_pushes 1 (Some ''data:image/webp;base64,AA'')) ! 0)
     = Some ''data:image/webp;base64,AA''"
    by simp
  from j u c r0 r1 show ?thesis by blast
qed

text \<open>
  The claim as stated (for an evicted snapshot no metadata entry is written and no
  notification is emitted) fails. After the two pushes above the first snapshot is in
  neither stack and has no metadata entry; when its job completes, the table holds an entry
  for it and the sink has received one more notification.
\<close>

theorem thumbnail_for_evicted_snapshot_counterexample:
  "ident (thumbJobs evicting_pushes ! 0)
     \<notin> ident ` set (undoStack evicting_pushes @ redoStack evicting_pushes) \<and>
   metaMap evicting_pushes (ident (thumbJobs evicting_pushes ! 0)) = None \<and>
   metaMap (thumbJobDone evicting_pushes 0 (Some ''data:image/webp;base64,AA''))
     (ident (thumbJobs evicting_pushes ! 0)) \<noteq> None \<and>
   length (uiLog (thumbJobDone evicting_pushes 0 (Some ''data:image/webp;base64,AA'')))
     = Suc (length (uiLog evicting_pushes))"
  by code_simp

subsection \<open>C4: the byte limit\<close>

text \<open>
  Claim C4, as the code has it. With a byte limit configured (\<open>maxBytes\<close> a positive
  number), the limit is enforced where \<open>_enforceLimits\<close> runs, and by evicting from the
  undo stack only. After a push that returns true the bytes of both stacks together are at
  most \<open>maxBytes\<close>. After a \<open>setMaxEntries\<close> that accepts its argument, and after a
  \<open>redo\<close> whose surface read succeeds, either they are at most \<open>maxBytes\<close> or the undo
  stack is empty (what is left is on the redo stack, which is never evicted).
  \<open>undo\<close> runs no eviction.
\<close>

theorem byte_cap_where_eviction_runs:
  assumes "maxBytes s = Some mb" "mb > 0"
  shows "(snd (pushHistory s lbl env) \<longrightarrow> getEstimatedBytes (fst (pushHistory s lbl env)) \<le> mb) \<and>
         ((case n of NotFinite \<Rightarrow> False | Num q \<Rightarrow> q > 0) \<longrightarrow>
            undoStack (setMaxEntries s n) = [] \<or> getEstimatedBytes (setMaxEntries s n) \<le> mb) \<and>
         (canRedo s \<and> \<not> isl (getImageData s env') \<longrightarrow>
            undoStack (fst (redo s env')) = [] \<or> getEstimatedBytes (fst (redo s env')) \<le> mb)"
  using pushHistory_success_bytes [OF assms, of lbl env] redo_bytes [OF assms, of env']
    setMaxEntries_bytes [OF assms, of n]
  by (auto split: jsnum.splits)

text \<open>
  A limit of 4 bytes, one push of a one-pixel surface and one undo: a push succeeds and
  leaves 4 bytes, \<open>setMaxEntries(2)\<close> leaves the undo stack empty, and a redo leaves 4
  bytes.
\<close>

theorem byte_cap_where_eviction_runs_witness:
  "maxBytes capped_navigated = Some 4 \<and>
   snd (pushHistory capped_navigated None surface_A) \<and>
   getEstimatedBytes (fst (pushHistory capped_navigated None surface_A)) \<le> 4 \<and>
   undoStack (setMaxEntries capped_navigated (Num 2)) = [] \<and>
   canRedo capped_navigated \<and> \<not> isl (getImageData capped_navigated surface_A) \<and>
   undoStack (fst (redo capped_navigated surface_A)) \<noteq> [] \<and>
   getEstimatedBytes (fst (redo capped_navigated surface_A)) \<le> 4"
proof -
  have m: "maxBytes capped_navigated = Some 4" by code_simp
  have p: "snd (pushHistory capped_navigated None surface_A)" by code_simp
  have e: "undoStack (setMaxEntries capped_navigated (Num 2)) = []" by code_simp
  have r: "canRedo capped_navigated" "\<not> isl (getImageData capped_navigated surface_A)"
    "undoStack (fst (redo capped_navigated surface_A)) \<noteq> []"
    by code_simp+
  from byte_cap_where_eviction_runs [OF m, of None surface_A "Num 2" surface_A] p r
  have "getEstimatedBytes (fst (pushHistory capped_navigated None surface_A)) \<le> 4 \<and>
        getEstimatedBytes (fst (redo capped_navigated surface_A)) \<le> 4"
    by simp
  with m p e r show ?thesis by blast
qed

text \<open>
  The claim as stated (with a byte limit configured, the bytes of both stacks together are
  at most the limit after every mutating call) fails. With a limit of 4 bytes, a push of a
  one-pixel surface and then an undo while the canvas holds two pixels: the undo stack is
  empty, the redo stack holds the two-pixel snapshot, 8 bytes.
\<close>

theorem byte_cap_counterexample:
  "maxBytes (run capped_history [Push None surface_A, Undo surface_wide]) = Some 4 \<and>
   getEstimatedBytes (run capped_history [Push None surface_A]) = 4 \<and>
   getEstimatedBytes (run capped_history [Push None surface_A, Undo surface_wide]) = 8 \<and>
   \<not> getEstimatedBytes (run capped_history [Push None surface_A, Undo surface_wide]) \<le> 4"
  by code_simp

subsection \<open>C1: push, push, undo, redo\<close>

text \<open>
  Claim C1 says that, with \<open>protectReturned\<close> set, after a push while the surface shows
  A and a push while it shows B, \<open>undo()\<close> returns a snapshot with exactly A's bytes, the
  following \<open>redo()\<close> one with exactly B's bytes, and the counts are then 2 and 0. The
  comment of \<open>undo\<close> promises the same (\<open>return previous ImageData for caller to draw\<close>), and the callers push after they have drawn, so the top of the undo stack is
  the state the canvas already shows. The code of \<open>undo\<close> pops that top entry: it
  returns a copy of B, the current state, and A stays on the stack. The theorem states
  what the code does on a history with empty stacks and limits that admit two snapshots:
  \<open>undo\<close> returns B's bytes; \<open>redo\<close> returns the bytes of the snapshot that \<open>undo\<close>
  took of the surface, which are B's when the surface still showed B; the counts are 2
  and 0; the returned snapshots are new objects, not the stored ones.
\<close>

theorem push_push_undo_redo:
  assumes st: "canvasRef s" "ctxRef s" "undoStack s = []" "redoStack s = []"
      "protectReturned s" "2 \<le> maxEntries s"
    and cap: "case maxBytes s of None \<Rightarrow> True
         | Some mb \<Rightarrow> mb = 0 \<or>
             (canvas_width eA * canvas_height eA * 4 + canvas_width eB * canvas_height eB * 4 \<le> mb \<and>
              canvas_width eA * canvas_height eA * 4 + canvas_width eR * canvas_height eR * 4 \<le> mb)"
    and A: "0 < canvas_width eA" "0 < canvas_height eA" "pixel_read eA = Inr a"
    and B: "0 < canvas_width eB" "0 < canvas_height eB" "pixel_read eB = Inr b"
    and U: "0 < canvas_width eU" "0 < canvas_height eU" "pixel_read eU = Inr c"
    and R: "0 < canvas_width eR" "0 < canvas_height eR" "pixel_read eR = Inr d"
    and calls: "p1 = pushHistory s lA eA" "p2 = pushHistory (fst p1) lB eB"
      "p3 = undo (fst p2) eU" "p4 = redo (fst p3) eR"
  shows "snd p1 \<and> snd p2 \<and>
     map_option data (snd p3) = Some b \<and>
     map_option data (snd p4) = Some c \<and>
     getUndoCount (fst p4) = 2 \<and> getRedoCount (fst p4) = 0 \<and>
     map data (undoStack (fst p4)) = [a, d] \<and>
     snd p3 \<notin> Some ` set (undoStack (fst p2)) \<and>
     snd p4 \<notin> Some ` set (redoStack (fst p3))"
proof -
  have f1: "snd p1 \<and>
     undoStack (fst p1) = undoStack s @
       [\<lparr>ident = nextId s, width = canvas_width eA, height = canvas_height eA, data = a\<rparr>] \<and>
     redoStack (fst p1) = [] \<and> \<not> isTainted (fst p1) \<and>
     canvasRef (fst p1) \<and> ctxRef (fst p1) \<and> maxEntries (fst p1) = maxEntries s \<and>
     maxBytes (fst p1) = maxBytes s \<and> protectReturned (fst p1) = protectReturned s \<and>
     nextId (fst p1) = Suc (nextId s)"
    using st cap A by (intro pushHistory_fits [OF _ _ _ _ _ _ _ calls(1)]) (auto split: option.splits)
  have f2: "snd p2 \<and>
     undoStack (fst p2) = undoStack (fst p1) @
       [\<lparr>ident = nextId (fst p1), width = canvas_width eB, height = canvas_height eB, data = b\<rparr>] \<and>
     redoStack (fst p2) = [] \<and> \<not> isTainted (fst p2) \<and>
     canvasRef (fst p2) \<and> ctxRef (fst p2) \<and> maxEntries (fst p2) = maxEntries (fst p1) \<and>
     maxBytes (fst p2) = maxBytes (fst p1) \<and> protectReturned (fst p2) = protectReturned (fst p1) \<and>
     nextId (fst p2) = Suc (nextId (fst p1))"
    using st cap B f1
    by (intro pushHistory_fits [OF _ _ _ _ _ _ _ calls(2)]) (auto split: option.splits)
  have u2: "undoStack (fst p2) =
      [\<lparr>ident = nextId s, width = canvas_width eA, height = canvas_height eA, data = a\<rparr>] @
      [\<lparr>ident = Suc (nextId s), width = canvas_width eB, height = canvas_height eB, data = b\<rparr>]"
    using f1 f2 st by simp
  have f3: "map_option data (snd p3) =
       Some (data \<lparr>ident = Suc (nextId s), width = canvas_width eB, height = canvas_height eB,
                    data = b\<rparr>) \<and>
     (\<not> protectReturned (fst p2) \<longrightarrow> snd p3 =
        Some \<lparr>ident = Suc (nextId s), width = canvas_width eB, height = canvas_height eB, data = b\<rparr>) \<and>
     undoStack (fst p3) =
       [\<lparr>ident = nextId s, width = canvas_width eA, height = canvas_height eA, data = a\<rparr>] \<and>
     redoStack (fst p3) = redoStack (fst p2) @
       [\<lparr>ident = nextId (fst p2), width = canvas_width eU, height = canvas_height eU, data = c\<rparr>] \<and>
     \<not> isTainted (fst p3) \<and>
     canvasRef (fst p3) \<and> ctxRef (fst p3) \<and> maxEntries (fst p3) = maxEntries (fst p2) \<and>
     maxBytes (fst p3) = maxBytes (fst p2) \<and> protectReturned (fst p3) = protectReturned (fst p2) \<and>
     (protectReturned (fst p2) \<longrightarrow> map_option ident (snd p3) = Some (Suc (nextId (fst p2)))) \<and>
     nextId (fst p3) =
       (if protectReturned (fst p2) then Suc (Suc (nextId (fst p2))) else Suc (nextId (fst p2)))"
    using f2 U by (intro undo_reads [OF _ _ _ _ _ _ u2 calls(3)]) auto
  have r3: "redoStack (fst p3) = [] @
      [\<lparr>ident = Suc (Suc (nextId s)), width = canvas_width eU, height = canvas_height eU, data = c\<rparr>]"
    using f1 f2 f3 by simp
  have f4: "map_option data (snd p4) =
       Some (data \<lparr>ident = Suc (Suc (nextId s)), width = canvas_width eU,
                    height = canvas_height eU, data = c\<rparr>) \<and>
     (\<not> protectReturned (fst p3) \<longrightarrow> snd p4 =
        Some \<lparr>ident = Suc (Suc (nextId s)), width = canvas_width eU, height = canvas_height eU,
              data = c\<rparr>) \<and>
     undoStack (fst p4) = undoStack (fst p3) @
       [\<lparr>ident = nextId (fst p3), width = canvas_width eR, height = canvas_height eR, data = d\<rparr>] \<and>
     redoStack (fst p4) = [] \<and> \<not> isTainted (fst p4) \<and>
     canvasRef (fst p4) \<and> ctxRef (fst p4) \<and> maxEntries (fst p4) = maxEntries (fst p3) \<and>
     maxBytes (fst p4) = maxBytes (fst p3) \<and> protectReturned (fst p4) = protectReturned (fst p3) \<and>
     (protectReturned (fst p3) \<longrightarrow> map_option ident (snd p4) = Some (Suc (nextId (fst p3))))"
    using f1 f2 f3 R st cap
    by (intro redo_reads [OF _ _ _ _ _ _ r3 _ _ calls(4)]) (auto split: option.splits)
  have i3: "map_option ident (snd p3) = Some (Suc (Suc (Suc (nextId s))))"
    using f1 f2 f3 st by simp
  have i4: "map_option ident (snd p4) = Some (Suc (Suc (Suc (Suc (Suc (nextId s))))))"
    using f1 f2 f3 f4 st by simp
  have n3: "snd p3 \<notin> Some ` set (undoStack (fst p2))"
    by (rule fresh_not_stored [OF i3]) (simp add: u2)
  have n4: "snd p4 \<notin> Some ` set (redoStack (fst p3))"
    by (rule fresh_not_stored [OF i4]) (simp add: r3)
  have "snd p1 \<and> snd p2 \<and> map_option data (snd p3) = Some b \<and>
     map_option data (snd p4) = Some c \<and>
     getUndoCount (fst p4) = 2 \<and> getRedoCount (fst p4) = 0 \<and>
     map data (undoStack (fst p4)) = [a, d]"
    using f1 f2 f3 f4 st by (simp add: getUndoCount_def getRedoCount_def)
  with n3 n4 show ?thesis by simp
qed

text \<open>
  On the history initialised with \<open>protectReturned: true\<close>, A = 1, 2, 3, 4 and
  B = 5, 6, 7, 8, the surface showing B from the second push on.
\<close>

theorem push_push_undo_redo_witness:
  "map_option data (snd (undo (run protected_history
      [Push (Some ''A'') surface_A, Push (Some ''B'') surface_B]) surface_B))
     = Some [5, 6, 7, 8] \<and>
   map_option data (snd (redo (run protected_history
      [Push (Some ''A'') surface_A, Push (Some ''B'') surface_B, Undo surface_B]) surface_B))
     = Some [5, 6, 7, 8] \<and>
   getUndoCount (run protected_history
      [Push (Some ''A'') surface_A, Push (Some ''B'') surface_B, Undo surface_B, Redo surface_B]) = 2 \<and>
   getRedoCount (run protected_history
      [Push (Some ''A'') surface_A, Push (Some ''B'') surface_B, Undo surface_B, Redo surface_B]) = 0"
proof -
  have st: "canvasRef protected_history" "ctxRef protected_history"
    "undoStack protected_history = []" "redoStack protected_history = []"
    "protectReturned protected_history" "2 \<le> maxEntries protected_history"
    by code_simp+
  have cap: "case maxBytes protected_history of None \<Rightarrow> True
         | Some mb \<Rightarrow> mb = 0 \<or>
             (canvas_width surface_A * canvas_height surface_A * 4
                + canvas_width surface_B * canvas_height surface_B * 4 \<le> mb \<and>
              canvas_width surface_A * canvas_height surface_A * 4
                + canvas_width surface_B * canvas_height surface_B * 4 \<le> mb)"
    by code_simp
  have A: "0 < canvas_width surface_A" "0 < canvas_height surface_A"
    "pixel_read surface_A = Inr [1, 2, 3, 4]"
    by (simp_all add: surface_A_def)
  have B: "0 < canvas_width surface_B" "0 < canvas_height surface_B"
    "pixel_read surface_B = Inr [5, 6, 7, 8]"
    by (simp_all add: surface_B_def)
  from push_push_undo_redo [OF st cap A B B B refl refl refl refl, of "Some ''A''" "Some ''B''"]
  show ?thesis by simp
qed

text \<open>
  The failing input once more, evaluated: the stack holds A below B, and the undo returns
  the bytes 5, 6, 7, 8 of B, not the bytes 1, 2, 3, 4 of A that the claim and the comment
  of \<open>undo\<close> ask for.
\<close>

theorem undo_after_two_pushes_returns_the_second:
  "protectReturned protected_history \<and>
   pixel_read surface_A = Inr [1, 2, 3, 4] \<and> pixel_read surface_B = Inr [5, 6, 7, 8] \<and>
   map data (undoStack (run protected_history
      [Push (Some ''A'') surface_A, Push (Some ''B'') surface_B])) = [[1, 2, 3, 4], [5, 6, 7, 8]] \<and>
   map_option data (snd (undo (run protected_history
      [Push (Some ''A'') surface_A, Push (Some ''B'') surface_B]) surface_B))
     = Some [5, 6, 7, 8] \<and>
   map_option data (snd (undo (run protected_history
      [Push (Some ''A'') surface_A, Push (Some ''B'') surface_B]) surface_B))
     \<noteq> Some [1, 2, 3, 4]"
  by code_simp

end
